theory Spec2Isabelle
  imports Main "HOL-Library.Sublist" "HOL-Library.Word"
begin

section \<open>Errors\<close>

text \<open>
  Every exception type the modelled functions throw.  The payload is the text that
  \<open>what()\<close> would return (for \<open>InvalidMemorySizeException\<close>: the offending input).
\<close>

datatype error =
    InvalidMemorySizeException string
  | RuntimeError string
  | CreateBridgeException string
  | AssertionFailure string

section \<open>Characters and decimal numbers\<close>

text \<open>
  Strings are byte strings.  The inputs the memory-size claims talk about are ASCII, so
  the digit class of the regular expression is modelled by the ten ASCII digits and
  case folding by the 26 ASCII letters.  \<open>digit_char\<close> is only ever applied to a
  number below ten.
\<close>

definition digits :: string where
  "digits = ''0123456789''"

definition is_digit :: "char \<Rightarrow> bool" where
  "is_digit c = (c \<in> set digits)"

text \<open>The value of a digit is its position in \<open>digits\<close>, and conversely.\<close>

definition digit_val :: "char \<Rightarrow> nat" where
  "digit_val c = length (takeWhile (\<lambda>d. d \<noteq> c) digits)"

definition digit_char :: "nat \<Rightarrow> char" where
  "digit_char d = digits ! d"

definition to_lower :: "char \<Rightarrow> char" where
  "to_lower c =
     (case map_of (zip ''ABCDEFGHIJKLMNOPQRSTUVWXYZ'' ''abcdefghijklmnopqrstuvwxyz'') c of
        Some l \<Rightarrow> l
      | None \<Rightarrow> c)"

text \<open>Value of a digit string read in base ten, most significant digit first.\<close>

fun digits_val :: "nat \<Rightarrow> string \<Rightarrow> nat" where
  "digits_val acc [] = acc"
| "digits_val acc (c # cs) = digits_val (10 * acc + digit_val c) cs"

text \<open>Decimal rendering of a natural number, as \<open>fmt::format("{}", n)\<close> writes it.\<close>

fun string_of_nat :: "nat \<Rightarrow> string" where
  "string_of_nat n =
     (if n < 10 then [digit_char n]
      else string_of_nat (n div 10) @ [digit_char (n mod 10)])"

text \<open>\<open>QString::number(long long)\<close>: a minus sign, then the magnitude.\<close>

definition number :: "int \<Rightarrow> string" where
  "number i = (if i < 0 then CHR ''-'' # string_of_nat (nat (- i)) else string_of_nat (nat i))"

section \<open>MemorySize (src/utils/memory\_size.cpp)\<close>

definition kilo :: int where "kilo = 1024"
definition mega :: int where "mega = kilo * kilo"
definition giga :: int where "giga = mega * kilo"

text \<open>
  \<open>long long\<close> is a signed 64-bit integer.  Signed overflow of \<open>val *= giga\<close> is
  undefined in C++; the model takes the two's-complement result that the hardware
  produces.  No theorem below relies on a product that overflows.
\<close>

definition wrap64 :: "int \<Rightarrow> int" where
  "wrap64 x = (x + 2 ^ 63) mod 2 ^ 64 - 2 ^ 63"

text \<open>
  \<open>QString::toLongLong()\<close> applied to the first capture, a non-empty string of
  digits: the number, or 0 when the conversion fails, which for such a string happens
  exactly when the number does not fit into a signed 64-bit integer.
\<close>

definition toLongLong :: "string \<Rightarrow> int" where
  "toLongLong ds = (let v = int (digits_val 0 ds) in if v < 2 ^ 63 then v else 0)"

text \<open>
  \<open>QRegExp("(\\d+)([KMG])?B?", Qt::CaseInsensitive).exactMatch\<close>.  The three parts of
  the pattern use disjoint character classes, so the greedy match is unique and is
  found by reading from left to right: the digits, at most one unit letter, at most
  one B, and then the end of the input.  The result holds the two captures:
  \<open>cap(1)\<close> (the digits) and \<open>cap(2)\<close> (the unit letter, or the empty string).
\<close>

definition exactMatch :: "string \<Rightarrow> (string \<times> string) option" where
  "exactMatch s =
     (let ds = takeWhile is_digit s;
          r1 = dropWhile is_digit s;
          u = (case r1 of [] \<Rightarrow> [] | c # _ \<Rightarrow> if to_lower c \<in> set ''kmg'' then [c] else []);
          r2 = drop (length u) r1;
          r3 = (case r2 of [] \<Rightarrow> [] | c # cs \<Rightarrow> if to_lower c = CHR ''b'' then cs else r2)
      in if ds \<noteq> [] \<and> r3 = [] then Some (ds, u) else None)"

definition in_bytes :: "string \<Rightarrow> error + int" where
  "in_bytes mem_value =
     (if mem_value = [] then Inr 0
      else case exactMatch mem_value of
        Some (cap1, cap2) \<Rightarrow>
          (let val = toLongLong cap1 in
           case cap2 of
             [] \<Rightarrow> Inr val
           | u # _ \<Rightarrow>
               if to_lower u = CHR ''g'' then Inr (wrap64 (val * giga))
               else if to_lower u = CHR ''m'' then Inr (wrap64 (val * mega))
               else if to_lower u = CHR ''k'' then Inr (wrap64 (val * kilo))
               else Inl (AssertionFailure ''Shouldn't be here (invalid unit)''))
      | None \<Rightarrow> Inl (InvalidMemorySizeException mem_value))"

record MemorySize =
  bytes :: int

text \<open>The two constructors: the default one and the one parsing a string.\<close>

definition MemorySize_default :: MemorySize where
  "MemorySize_default = \<lparr>bytes = 0\<rparr>"

definition MemorySize_of :: "string \<Rightarrow> error + MemorySize" where
  "MemorySize_of val = (case in_bytes val of Inl e \<Rightarrow> Inl e | Inr b \<Rightarrow> Inr \<lparr>bytes = b\<rparr>)"

definition MemorySize_in_bytes :: "MemorySize \<Rightarrow> int" where
  "MemorySize_in_bytes m = bytes m"

definition MemorySize_eq :: "MemorySize \<Rightarrow> MemorySize \<Rightarrow> bool" where
  "MemorySize_eq a b = (bytes a = bytes b)"

text \<open>The spellings of the unit and of the trailing B that the claims range over.\<close>

definition unit_letters :: "string list" where
  "unit_letters = [''k'', ''K'', ''m'', ''M'', ''g'', ''G'']"

definition b_suffixes :: "string list" where
  "b_suffixes = ['''', ''b'', ''B'']"

definition multiplier :: "string \<Rightarrow> int" where
  "multiplier u =
     (if u = ''k'' \<or> u = ''K'' then 1024
      else if u = ''m'' \<or> u = ''M'' then 1024 ^ 2
      else if u = ''g'' \<or> u = ''G'' then 1024 ^ 3
      else 1)"

section \<open>Strings as Qt handles them\<close>

text \<open>\<open>QString::contains\<close>: does \<open>sub\<close> occur in \<open>s\<close> as a contiguous substring?\<close>

fun contains :: "string \<Rightarrow> string \<Rightarrow> bool" where
  "contains [] sub = (sub = [])"
| "contains (c # cs) sub = (prefix sub (c # cs) \<or> contains cs sub)"






section \<open>Subnet allocation (backend\_utils.cpp)\<close>

text \<open>
  The host as the allocator sees it.  \<open>dist_gen n\<close> is the value of the \<open>n\<close>-th
  evaluation of \<open>dist(gen)\<close> after the generator was seeded; the distribution is
  \<open>uniform_int_distribution<int>{0, 255}\<close>, so each value is an octet.
  \<open>ip_route_show\<close> is the output of \<open>ip -4 route show\<close> and \<open>ping\<close> tells whether
  the ping command for an address exits with status 0; both are taken as fixed for
  the duration of one call.
\<close>

record host =
  dist_gen :: "nat \<Rightarrow> 8 word"
  ip_route_show :: string
  ping :: "string \<Rightarrow> bool"

definition subnet_used_locally :: "host \<Rightarrow> string \<Rightarrow> bool" where
  "subnet_used_locally h subnet = contains (ip_route_show h) subnet"

definition can_reach_gateway :: "host \<Rightarrow> string \<Rightarrow> bool" where
  "can_reach_gateway h ip = ping h ip"


text \<open>
  The candidate of the \<open>i\<close>-th turn of the loop.  C++ leaves the order in which the
  two arguments \<open>dist(gen)\<close> are evaluated open; the model evaluates them from left to
  right.
\<close>

definition candidate :: "host \<Rightarrow> nat \<Rightarrow> string" where
  "candidate h i =
     ''10.'' @ string_of_nat (unat (dist_gen h (2 * i))) @ ''.''
       @ string_of_nat (unat (dist_gen h (2 * i + 1)))"

text \<open>
  The loop of \<open>generate_random_subnet\<close>, entered with counter \<open>i\<close>.  The second
  component of the result is the number of candidates that were drawn in total.
\<close>

function generate_from :: "host \<Rightarrow> nat \<Rightarrow> (error + string) \<times> nat" where
  "generate_from h i =
     (if i < 100 then
        (let subnet = candidate h i in
         if subnet_used_locally h subnet then generate_from h (Suc i)
         else if can_reach_gateway h (subnet @ ''.1'') then generate_from h (Suc i)
         else if can_reach_gateway h (subnet @ ''.254'') then generate_from h (Suc i)
         else (Inr subnet, Suc i))
      else (Inl (RuntimeError ''Could not determine a subnet for networking.''), i))"
  by pat_completeness auto
termination
  by (relation "measure (\<lambda>(h, i). 100 - i)") auto

definition generate_random_subnet :: "host \<Rightarrow> (error + string) \<times> nat" where
  "generate_random_subnet h = generate_from h 0"







section \<open>Disk images (backend\_utils.cpp)\<close>

text \<open>
  \<open>ProcessState\<close> as the tests build it: an optional exit code and an optional
  error, of which only the message is modelled.
\<close>

record ProcessState =
  exit_code :: "int option"
  error :: "string option"

text \<open>
  Modelled from the spec: \<open>ProcessState::completed_successfully\<close>, declared in
  multipass/process/process.h, which is not among the sources.  Section 4.4 of the
  specification calls a completion non-successful when the exit code is not zero or
  the process terminated abnormally.
\<close>

definition completed_successfully :: "ProcessState \<Rightarrow> bool" where
  "completed_successfully st = (error st = None \<and> exit_code st = Some 0)"

text \<open>What one run of a process leaves behind for its caller to read.\<close>

record process =
  state :: ProcessState
  standard_output :: string
  standard_error :: string

text \<open>One invocation of qemu-img: its arguments and the timeout handed to \<open>execute\<close>.\<close>

type_synonym invocation = "string list \<times> nat option"

text \<open>
  The values a \<open>QJsonDocument\<close> can hold.  An object is a list of members with
  pairwise different keys.
\<close>

datatype json =
    JNull
  | JBool bool
  | JNumber int
  | JString string
  | JArray "json list"
  | JObject "(string \<times> json) list"

text \<open>
  The collaborators of the image functions: \<open>execute\<close> runs qemu-img,
  \<open>failure_message\<close> is \<open>ProcessState::failure_message\<close>,
  \<open>image_resize_timeout\<close> is the constant of shared/shared\_backend\_utils.h, and
  \<open>fromJson\<close> is Qt's JSON parser, \<open>None\<close> being the null document it returns for
  malformed input.  None of these is among the sources.
\<close>

record tools =
  execute :: "string list \<Rightarrow> nat option \<Rightarrow> process"
  failure_message :: "ProcessState \<Rightarrow> string"
  image_resize_timeout :: nat
  fromJson :: "string \<rightharpoonup> json"

text \<open>
  \<open>QJsonDocument::object\<close> is the empty object unless the document holds an object;
  \<open>QJsonObject::operator[]\<close> is the undefined value (here \<open>None\<close>) for a missing key;
  \<open>QJsonValue::toString\<close> is the empty string unless the value is a string.
\<close>

definition object :: "json option \<Rightarrow> (string \<times> json) list" where
  "object doc = (case doc of Some (JObject members) \<Rightarrow> members | _ \<Rightarrow> [])"

definition toString :: "json option \<Rightarrow> string" where
  "toString v = (case v of Some (JString s) \<Rightarrow> s | _ \<Rightarrow> [])"

definition resize_instance_image ::
  "tools \<Rightarrow> MemorySize \<Rightarrow> string \<Rightarrow> (error + unit) \<times> invocation list" where
  "resize_instance_image t disk_space image_path =
     (let disk_size = number (MemorySize_in_bytes disk_space);
          qemuimg_parameters = [''resize'', image_path, disk_size];
          qemuimg_process = execute t qemuimg_parameters (Some (image_resize_timeout t));
          process_state = state qemuimg_process;
          calls = [(qemuimg_parameters, Some (image_resize_timeout t))]
      in if \<not> completed_successfully process_state then
           (Inl (RuntimeError (''Cannot resize instance image: qemu-img failed (''
                   @ failure_message t process_state @ '') with output:'' @ [CHR 0x0A]
                   @ standard_error qemuimg_process)), calls)
         else (Inr (), calls))"

definition convert_to_qcow_if_necessary ::
  "tools \<Rightarrow> string \<Rightarrow> (error + string) \<times> invocation list" where
  "convert_to_qcow_if_necessary t image_path =
     (let qcow2_path = image_path @ ''.qcow2'';
          info_parameters = [''info'', ''--output=json'', image_path];
          qemuimg_info_process = execute t info_parameters None;
          info_call = (info_parameters, None)
      in if \<not> completed_successfully (state qemuimg_info_process) then
           (Inl (RuntimeError (''Cannot read image format: qemu-img failed (''
                   @ failure_message t (state qemuimg_info_process) @ '') with output:''
                   @ [CHR 0x0A] @ standard_error qemuimg_info_process)), [info_call])
         else
           (let image_info = standard_output qemuimg_info_process;
                image_record = object (fromJson t image_info)
            in if toString (map_of image_record ''format'') = ''raw'' then
                 (let convert_parameters =
                        [''convert'', ''-p'', ''-O'', ''qcow2'', image_path, qcow2_path];
                      qemuimg_convert_process =
                        execute t convert_parameters (Some (image_resize_timeout t));
                      convert_call = (convert_parameters, Some (image_resize_timeout t))
                  in if \<not> completed_successfully (state qemuimg_convert_process) then
                       (Inl (RuntimeError (''Failed to convert image format: qemu-img failed (''
                               @ failure_message t (state qemuimg_convert_process)
                               @ '') with output:'' @ [CHR 0x0A]
                               @ standard_error qemuimg_convert_process)),
                        [info_call, convert_call])
                     else (Inr qcow2_path, [info_call, convert_call]))
               else (Inr image_path, [info_call])))"

section \<open>The acceleration device (backend\_utils.cpp)\<close>

text \<open>
  The part of the kernel that \<open>check_if_kvm_is_in_use\<close> talks to: the descriptors
  the process holds open, and \<open>errno\<close>.  A failing system call returns \<open>-1\<close> and sets
  \<open>errno\<close>; a successful one leaves \<open>errno\<close> alone.
\<close>

record kernel =
  open_fds :: "int list"
  errno :: int

definition EBADF :: int where "EBADF = 9"
definition EBUSY :: int where "EBUSY = 16"

text \<open>
  What the device does in this run: whether opening \<open>/dev/kvm\<close> fails and whether
  \<open>KVM_CREATE_VM\<close> on the open device fails, each with the \<open>errno\<close> of the failure.
\<close>

record kvm_device =
  open_failure :: "int option"
  create_vm_failure :: "int option"

datatype syscall = Open string int | Ioctl int int | Close int int

text \<open>A new descriptor is the lowest number that is not open.\<close>

fun first_free :: "nat \<Rightarrow> int \<Rightarrow> int list \<Rightarrow> int" where
  "first_free 0 c fds = c"
| "first_free (Suc k) c fds = (if c \<in> set fds then first_free k (c + 1) fds else c)"

definition lowest_free :: "int list \<Rightarrow> int" where
  "lowest_free fds = first_free (length fds) 0 fds"

definition sys_open :: "kvm_device \<Rightarrow> kernel \<Rightarrow> int \<times> kernel" where
  "sys_open dev k =
     (case open_failure dev of
        Some e \<Rightarrow> (- 1, k\<lparr>errno := e\<rparr>)
      | None \<Rightarrow> (let fd = lowest_free (open_fds k) in (fd, k\<lparr>open_fds := fd # open_fds k\<rparr>)))"

text \<open>\<open>ioctl(fd, KVM_CREATE_VM, 0)\<close>: on success the result is the descriptor of the new VM.\<close>

definition sys_ioctl :: "kvm_device \<Rightarrow> kernel \<Rightarrow> int \<Rightarrow> int \<times> kernel" where
  "sys_ioctl dev k fd =
     (if fd < 0 \<or> fd \<notin> set (open_fds k) then (- 1, k\<lparr>errno := EBADF\<rparr>)
      else case create_vm_failure dev of
             Some e \<Rightarrow> (- 1, k\<lparr>errno := e\<rparr>)
           | None \<Rightarrow> (let vm = lowest_free (open_fds k) in (vm, k\<lparr>open_fds := vm # open_fds k\<rparr>)))"

text \<open>
  Closing an open descriptor of a device node releases it and succeeds; closing
  anything else fails with \<open>EBADF\<close>, as does \<open>ioctl\<close> on anything that is not an
  open descriptor.
\<close>

definition sys_close :: "kernel \<Rightarrow> int \<Rightarrow> int \<times> kernel" where
  "sys_close k fd =
     (if fd < 0 \<or> fd \<notin> set (open_fds k) then (- 1, k\<lparr>errno := EBADF\<rparr>)
      else (0, k\<lparr>open_fds := removeAll fd (open_fds k)\<rparr>))"

text \<open>
  The result holds the outcome, the kernel state afterwards, and the system calls
  made, each with its result, in the order they were made.
\<close>

definition check_if_kvm_is_in_use ::
  "kvm_device \<Rightarrow> kernel \<Rightarrow> (error + unit) \<times> kernel \<times> syscall list" where
  "check_if_kvm_is_in_use dev k0 =
     (let (kvm_fd, k1) = sys_open dev k0;
          (ret, k2) = sys_ioctl dev k1 kvm_fd;
          (c1, k3) = sys_close k2 kvm_fd;
          calls = [Open ''/dev/kvm'' kvm_fd, Ioctl kvm_fd ret, Close kvm_fd c1]
      in if ret = - 1 \<and> errno k3 = EBUSY then
           (Inl (RuntimeError (''Another virtual machine manager is currently running. ''
                   @ ''Please shut it down before starting a Multipass instance.'')), k3, calls)
         else
           (let (c2, k4) = sys_close k3 ret
            in (Inr (), k4, calls @ [Close ret c2])))"

section \<open>Bridge creation over D-Bus (backend\_utils.cpp)\<close>

text \<open>
  \<open>QDBusObjectPath\<close>: \<open>None\<close> is the path whose string is null, which is what a
  default-constructed path holds.
\<close>

type_synonym object_path = "string option"

record QDBusError =
  isValid :: bool
  message :: string

text \<open>A remote interface is named by service, object and interface.\<close>

type_synonym interface = "string \<times> string \<times> string"

datatype variant = VString string | VInt int

type_synonym VariantMapMap = "(string \<times> (string \<times> variant) list) list"

datatype argument = Settings VariantMapMap | ObjectPath object_path

text \<open>
  A \<open>QDBusReply\<close>: invalid with an error, or valid with a value.  For a call without
  result (\<open>Delete\<close>) the value is of no interest.
\<close>

datatype reply = ErrorReply QDBusError | ValueReply object_path

text \<open>Everything asked of the bus, in the order it is asked.\<close>

datatype bus_event =
    IsConnected
  | LastError
  | GetInterface interface
  | IsValid interface
  | InterfaceLastError interface
  | Call interface string "argument list"

text \<open>
  The system bus and the service behind it, as the wrappers of dbus\_wrappers.h show
  them (that header is not among the sources).  The answer to a method call depends
  on the interface, the method and the arguments.
\<close>

record bus =
  is_connected :: bool
  last_error :: QDBusError
  is_valid :: "interface \<Rightarrow> bool"
  interface_last_error :: "interface \<Rightarrow> QDBusError"
  call :: "interface \<Rightarrow> string \<Rightarrow> argument list \<Rightarrow> reply"

datatype level = Level_error | Level_warning | Level_info | Level_debug

type_synonym log_entry = "level \<times> string \<times> string"

definition nm_bus_name :: string where "nm_bus_name = ''org.freedesktop.NetworkManager''"
definition nm_root_obj :: string where "nm_root_obj = ''/org/freedesktop/NetworkManager''"
definition nm_root_ifc :: string where "nm_root_ifc = ''org.freedesktop.NetworkManager''"
definition nm_settings_obj :: string where
  "nm_settings_obj = ''/org/freedesktop/NetworkManager/Settings''"
definition nm_settings_ifc :: string where
  "nm_settings_ifc = ''org.freedesktop.NetworkManager.Settings''"
definition nm_connection_ifc :: string where
  "nm_connection_ifc = ''org.freedesktop.NetworkManager.Settings.Connection''"
definition max_bridge_name_len :: nat where "max_bridge_name_len = 15"

definition log_category_create :: string where "log_category_create = ''create bridge''"
definition log_category_rollback :: string where "log_category_rollback = ''rollback bridge''"
definition root_path :: object_path where "root_path = Some ''/''"
definition base_name :: string where "base_name = ''br-''"

text \<open>The text an exception carries (\<open>what()\<close>).\<close>

fun what :: "error \<Rightarrow> string" where
  "what (InvalidMemorySizeException s) = s"
| "what (RuntimeError s) = s"
| "what (CreateBridgeException s) = s"
| "what (AssertionFailure s) = s"

text \<open>The constructor \<open>CreateBridgeException::CreateBridgeException\<close>.\<close>

definition CreateBridgeException_ctor :: "string \<Rightarrow> QDBusError \<Rightarrow> bool \<Rightarrow> error" where
  "CreateBridgeException_ctor detail dbus_error rollback =
     CreateBridgeException
       ((if rollback then ''Could not rollback bridge'' else ''Could not create bridge'')
        @ ''. '' @ detail @ '': ''
        @ (if isValid dbus_error then message dbus_error else ''unknown cause''))"

definition get_checked_system_bus :: "bus \<Rightarrow> (error + unit) \<times> bus_event list" where
  "get_checked_system_bus system_bus =
     (if \<not> is_connected system_bus then
        (Inl (CreateBridgeException_ctor ''Failed to connect to D-Bus system bus''
                (last_error system_bus) False),
         [IsConnected, LastError])
      else (Inr (), [IsConnected]))"

definition get_checked_interface ::
  "bus \<Rightarrow> string \<Rightarrow> string \<Rightarrow> string \<Rightarrow> (error + interface) \<times> bus_event list" where
  "get_checked_interface system_bus service path ifc =
     (let ret = (service, path, ifc) in
      if \<not> is_valid system_bus ret then
        (Inl (CreateBridgeException_ctor ''Could not reach remote D-Bus object''
                (interface_last_error system_bus ret) False),
         [GetInterface ret, IsValid ret, InterfaceLastError ret])
      else (Inr ret, [GetInterface ret, IsValid ret]))"

definition error_template :: "interface \<Rightarrow> string \<Rightarrow> string" where
  "error_template ifc method_name =
     (case ifc of (service, path, interface) \<Rightarrow>
        ''Failed DBus call. (Service: '' @ service @ ''; Object: '' @ path
        @ ''; Interface: '' @ interface @ ''; Method: '' @ method_name @ '')'')"

text \<open>\<open>checked_dbus_call<T, RollingBack>\<close>; the template flag is the second argument.\<close>

definition checked_dbus_call ::
  "bus \<Rightarrow> bool \<Rightarrow> interface \<Rightarrow> string \<Rightarrow> argument list
     \<Rightarrow> (error + object_path) \<times> bus_event list" where
  "checked_dbus_call system_bus RollingBack ifc method_name params =
     (case call system_bus ifc method_name params of
        ErrorReply err \<Rightarrow>
          (Inl (CreateBridgeException_ctor (error_template ifc method_name) err RollingBack),
           [Call ifc method_name params])
      | ValueReply v \<Rightarrow> (Inr v, [Call ifc method_name params]))"

definition make_connection_settings ::
  "string \<Rightarrow> string \<Rightarrow> string \<Rightarrow> VariantMapMap \<times> VariantMapMap" where
  "make_connection_settings parent_name child_name interface_name =
     ([(''connection'', [(''type'', VString ''bridge''), (''id'', VString parent_name),
                         (''autoconnect-slaves'', VInt 1)]),
       (''bridge'', [(''interface-name'', VString parent_name)])],
      [(''connection'', [(''id'', VString child_name),
                         (''type'', VString ''802-3-ethernet''),
                         (''slave-type'', VString ''bridge''),
                         (''master'', VString parent_name),
                         (''interface-name'', VString interface_name),
                         (''autoconnect-priority'', VInt 10)])])"

text \<open>
  The \<open>rollback\<close> closure of \<open>make_bridge_rollback_guard\<close>, run on the list of the
  paths it walks through.  An exception thrown by a \<open>Delete\<close> leaves the loop.
\<close>

fun rollback :: "bus \<Rightarrow> object_path list \<Rightarrow> (error + unit) \<times> bus_event list" where
  "rollback system_bus [] = (Inr (), [])"
| "rollback system_bus (obj_path # rest) =
     (case obj_path of
        None \<Rightarrow> rollback system_bus rest
      | Some path \<Rightarrow>
          (let connection = (nm_bus_name, path, nm_connection_ifc) in
           case checked_dbus_call system_bus True connection ''Delete'' [] of
             (Inl e, ev) \<Rightarrow> (Inl e, GetInterface connection # ev)
           | (Inr _, ev) \<Rightarrow>
               (case rollback system_bus rest of
                  (r, ev') \<Rightarrow> (r, GetInterface connection # ev @ ev'))))"

text \<open>
  Modelled from the spec: \<open>mp::top_catch_all\<close>, declared in multipass/top\_catch\_all.h,
  which is not among the sources.  By section 4.3 (step 4) and section 7 of the
  specification a failure of the compensation is swallowed and only logged.
\<close>

definition top_catch_all :: "string \<Rightarrow> error + unit \<Rightarrow> log_entry list" where
  "top_catch_all log_category r =
     (case r of Inl e \<Rightarrow> [(Level_error, log_category, what e)] | Inr _ \<Rightarrow> [])"

text \<open>
  What the scope guard made by \<open>make_bridge_rollback_guard\<close> does when it fires, with
  the values the two path variables have at that moment.
\<close>

definition make_bridge_rollback_guard ::
  "string \<Rightarrow> bus \<Rightarrow> object_path \<Rightarrow> object_path \<Rightarrow> bus_event list \<times> log_entry list" where
  "make_bridge_rollback_guard log_category system_bus parent_path child_path =
     (case rollback system_bus [child_path, parent_path] of
        (r, ev) \<Rightarrow>
          (ev, (Level_info, log_category, ''Rolling back bridge'') # top_catch_all log_category r))"

text \<open>\<open>std::string::c_str\<close> read as a C string: it ends at the first NUL.\<close>

definition c_str :: "string \<Rightarrow> string" where
  "c_str s = takeWhile (\<lambda>c. c \<noteq> CHR 0x00) s"

text \<open>
  The guard is armed before the first \<open>AddConnection\<close>, so it fires on each of the
  three failures below and is dismissed only at the end.
\<close>

definition create_bridge_with ::
  "bus \<Rightarrow> string \<Rightarrow> (error + unit) \<times> bus_event list \<times> log_entry list" where
  "create_bridge_with system_bus interface =
     (case get_checked_system_bus system_bus of
        (Inl e, ev0) \<Rightarrow> (Inl e, ev0, [])
      | (Inr _, ev0) \<Rightarrow>
     (case get_checked_interface system_bus nm_bus_name nm_root_obj nm_root_ifc of
        (Inl e, ev1) \<Rightarrow> (Inl e, ev0 @ ev1, [])
      | (Inr nm_root, ev1) \<Rightarrow>
     (case get_checked_interface system_bus nm_bus_name nm_settings_obj nm_settings_ifc of
        (Inl e, ev2) \<Rightarrow> (Inl e, ev0 @ ev1 @ ev2, [])
      | (Inr nm_settings, ev2) \<Rightarrow>
     (let parent_name = take max_bridge_name_len (base_name @ c_str interface);
          child_name = parent_name @ ''-child'';
          log0 = [(Level_debug, log_category_create, ''Creating bridge: '' @ parent_name)];
          (arg1, arg2) = make_connection_settings parent_name child_name interface;
          rollback_guard = make_bridge_rollback_guard log_category_rollback system_bus;
          ev = ev0 @ ev1 @ ev2
      in
     (case checked_dbus_call system_bus False nm_settings ''AddConnection'' [Settings arg1] of
        (Inl e, ev3) \<Rightarrow>
          (case rollback_guard None None of
             (evr, logr) \<Rightarrow> (Inl e, ev @ ev3 @ evr, log0 @ logr))
      | (Inr parent_path, ev3) \<Rightarrow>
     (case checked_dbus_call system_bus False nm_settings ''AddConnection'' [Settings arg2] of
        (Inl e, ev4) \<Rightarrow>
          (case rollback_guard parent_path None of
             (evr, logr) \<Rightarrow> (Inl e, ev @ ev3 @ ev4 @ evr, log0 @ logr))
      | (Inr child_path, ev4) \<Rightarrow>
     (case checked_dbus_call system_bus False nm_root ''ActivateConnection''
             [ObjectPath child_path, ObjectPath root_path, ObjectPath root_path] of
        (Inl e, ev5) \<Rightarrow>
          (case rollback_guard parent_path child_path of
             (evr, logr) \<Rightarrow> (Inl e, ev @ ev3 @ ev4 @ ev5 @ evr, log0 @ logr))
      | (Inr _, ev5) \<Rightarrow>
          (Inr (), ev @ ev3 @ ev4 @ ev5,
           log0 @ [(Level_info, log_category_create, ''Created bridge: '' @ parent_name)]))))))))"

section \<open>Sample collaborators\<close>

text \<open>
  Concrete tools in the manner of the mock processes of test\_backend\_utils.cpp: one
  whose every run exits with 0 and reports a qcow2 image, one whose every run
  crashes, and one that reports a raw image and converts it.
\<close>

definition json_format_text :: "string \<Rightarrow> string" where
  "json_format_text f =
     [CHR ''{'', CHR 0x22] @ ''format'' @ [CHR 0x22] @ '': '' @ [CHR 0x22] @ f @ [CHR 0x22, CHR ''}'']"

text \<open>A parser that knows the two documents the sample tools print.\<close>

definition sample_fromJson :: "string \<rightharpoonup> json" where
  "sample_fromJson s =
     (if s = json_format_text ''qcow2'' then Some (JObject [(''format'', JString ''qcow2'')])
      else if s = json_format_text ''raw'' then Some (JObject [(''format'', JString ''raw'')])
      else None)"

definition sample_failure_message :: "ProcessState \<Rightarrow> string" where
  "sample_failure_message st =
     (case error st of
        Some m \<Rightarrow> m
      | None \<Rightarrow> (case exit_code st of
                   Some c \<Rightarrow> if c \<noteq> 0 then ''Process returned exit code: '' @ number c else []
                 | None \<Rightarrow> []))"

definition tools_success :: tools where
  "tools_success =
     \<lparr>execute = (\<lambda>args timeout.
        \<lparr>state = \<lparr>exit_code = Some 0, error = None\<rparr>,
         standard_output = json_format_text ''qcow2'', standard_error = []\<rparr>),
      failure_message = sample_failure_message,
      image_resize_timeout = 300000,
      fromJson = sample_fromJson\<rparr>"

definition tools_crash :: tools where
  "tools_crash =
     \<lparr>execute = (\<lambda>args timeout.
        \<lparr>state = \<lparr>exit_code = None, error = Some ''core dumped''\<rparr>,
         standard_output = [], standard_error = ''qemu-img: write error''\<rparr>),
      failure_message = sample_failure_message,
      image_resize_timeout = 300000,
      fromJson = sample_fromJson\<rparr>"

text \<open>\<open>info\<close> reports a raw image; \<open>convert\<close> succeeds or fails as \<open>convert_ok\<close> says.\<close>

definition tools_raw :: "bool \<Rightarrow> tools" where
  "tools_raw convert_ok =
     \<lparr>execute = (\<lambda>args timeout.
        if take 1 args = [''info''] then
          \<lparr>state = \<lparr>exit_code = Some 0, error = None\<rparr>,
           standard_output = json_format_text ''raw'', standard_error = []\<rparr>
        else if convert_ok then
          \<lparr>state = \<lparr>exit_code = Some 0, error = None\<rparr>,
           standard_output = [], standard_error = []\<rparr>
        else
          \<lparr>state = \<lparr>exit_code = Some 1, error = None\<rparr>,
           standard_output = [], standard_error = ''qemu-img: no space left''\<rparr>),
      failure_message = sample_failure_message,
      image_resize_timeout = 300000,
      fromJson = sample_fromJson\<rparr>"

section \<open>Vocabulary of the subnet claims\<close>

text \<open>A candidate is rejected when one of the three checks of the loop rejects it.\<close>

definition rejected :: "host \<Rightarrow> string \<Rightarrow> bool" where
  "rejected h subnet =
     (subnet_used_locally h subnet \<or> can_reach_gateway h (subnet @ ''.1'')
      \<or> can_reach_gateway h (subnet @ ''.254''))"

definition subnet_exhausted :: error where
  "subnet_exhausted = RuntimeError ''Could not determine a subnet for networking.''"


text \<open>
  Sample hosts: one with a single route and nothing answering pings, on which the
  first candidate is 10.42.17, and one where every address answers.
\<close>

definition host_quiet :: host where
  "host_quiet =
     \<lparr>dist_gen = (\<lambda>n. if n = 0 then 42 else 17),
      ip_route_show = ''10.1.2.0/24 dev mpbr0 proto kernel scope link src 10.1.2.1'',
      ping = (\<lambda>ip. False)\<rparr>"

definition host_crowded :: host where
  "host_crowded = \<lparr>dist_gen = (\<lambda>n. 7), ip_route_show = [], ping = (\<lambda>ip. True)\<rparr>"







section \<open>Sample buses\<close>

text \<open>
  A connected bus whose two NetworkManager interfaces are valid.  \<open>AddConnection\<close>
  answers with the path \<open>/parent\<close> for settings that have a \<open>bridge\<close> section and with
  \<open>/child\<close> for settings that have none; \<open>ActivateConnection\<close> fails; \<open>Delete\<close>
  succeeds or fails as \<open>delete_ok\<close> says.
\<close>

definition sample_call :: "bool \<Rightarrow> interface \<Rightarrow> string \<Rightarrow> argument list \<Rightarrow> reply" where
  "sample_call delete_ok ifc method_name params =
     (if method_name = ''AddConnection'' then
        (case params of
           [Settings s] \<Rightarrow>
             (case map_of s ''bridge'' of
                Some _ \<Rightarrow> ValueReply (Some ''/parent'')
              | None \<Rightarrow> ValueReply (Some ''/child''))
         | _ \<Rightarrow> ErrorReply \<lparr>isValid = True, message = ''bad arguments''\<rparr>)
      else if method_name = ''Delete'' \<and> delete_ok then ValueReply None
      else ErrorReply \<lparr>isValid = True, message = ''refused''\<rparr>)"

definition sample_bus :: "bool \<Rightarrow> bus" where
  "sample_bus delete_ok =
     \<lparr>is_connected = True,
      last_error = \<lparr>isValid = False, message = []\<rparr>,
      is_valid = (\<lambda>ifc. True),
      interface_last_error = (\<lambda>ifc. \<lparr>isValid = False, message = []\<rparr>),
      call = sample_call delete_ok\<rparr>"

text \<open>A bus that is not connected, with the error the test of that case uses.\<close>

definition disconnected_bus :: bus where
  "disconnected_bus =
     \<lparr>is_connected = False,
      last_error = \<lparr>isValid = True, message = ''DBus error msg''\<rparr>,
      is_valid = (\<lambda>ifc. False),
      interface_last_error = (\<lambda>ifc. \<lparr>isValid = False, message = []\<rparr>),
      call = (\<lambda>ifc method_name params. ErrorReply \<lparr>isValid = False, message = []\<rparr>)\<rparr>"

section \<open>Decimal numbers\<close>

lemma below_ten: "d < 10 \<Longrightarrow> d \<in> {0, 1, 2, 3, 4, 5, 6, 7, 8, 9::nat}"
  by auto

lemma is_digit_digit_char: "d < 10 \<Longrightarrow> is_digit (digit_char d)"
  using below_ten [of d] by (auto simp: is_digit_def digit_char_def digits_def)

lemma digit_val_digit_char: "d < 10 \<Longrightarrow> digit_val (digit_char d) = d"
  using below_ten [of d] by (auto simp: digit_val_def digit_char_def digits_def)

lemma digits_val_append: "digits_val acc (xs @ ys) = digits_val (digits_val acc xs) ys"
  by (induction xs arbitrary: acc) auto

declare string_of_nat.simps [simp del]

lemma string_of_nat_digits: "list_all is_digit (string_of_nat n)"
  by (induction n rule: string_of_nat.induct)
     (subst string_of_nat.simps, auto simp: is_digit_digit_char)

lemma string_of_nat_nonempty: "string_of_nat n \<noteq> []"
  by (subst string_of_nat.simps) auto

lemma digits_val_string_of_nat: "digits_val 0 (string_of_nat n) = n"
  by (induction n rule: string_of_nat.induct)
     (subst string_of_nat.simps, auto simp: digits_val_append digit_val_digit_char)

section \<open>MemorySize: what the parser accepts and what it yields\<close>

lemma takeWhile_digits:
  "list_all is_digit ds \<Longrightarrow> (r = [] \<or> \<not> is_digit (hd r)) \<Longrightarrow> takeWhile is_digit (ds @ r) = ds"
  by (induction ds) (auto simp: takeWhile_eq_Nil_iff)

lemma dropWhile_digits:
  "list_all is_digit ds \<Longrightarrow> (r = [] \<or> \<not> is_digit (hd r)) \<Longrightarrow> dropWhile is_digit (ds @ r) = r"
  by (induction ds) (auto simp: dropWhile_eq_self_iff)

lemma suffix_no_digit:
  assumes "u \<in> set ('''' # unit_letters)" and "b \<in> set b_suffixes"
  shows "u @ b = [] \<or> \<not> is_digit (hd (u @ b))"
  using assms by (auto simp: unit_letters_def b_suffixes_def is_digit_def digits_def)

lemma exactMatch_conforming:
  assumes "ds \<noteq> []" and "list_all is_digit ds"
    and "u \<in> set ('''' # unit_letters)" and "b \<in> set b_suffixes"
  shows "exactMatch (ds @ u @ b) = Some (ds, u)"
proof -
  have t: "takeWhile is_digit (ds @ u @ b) = ds"
    using takeWhile_digits [OF assms(2) suffix_no_digit [OF assms(3,4)]] .
  have d: "dropWhile is_digit (ds @ u @ b) = u @ b"
    using dropWhile_digits [OF assms(2) suffix_no_digit [OF assms(3,4)]] .
  show ?thesis
    unfolding exactMatch_def t d using assms(1,3,4)
    by (auto simp: unit_letters_def b_suffixes_def to_lower_def)
qed


lemma toLongLong_in_range:
  "int (digits_val 0 ds) < 2 ^ 63 \<Longrightarrow> toLongLong ds = int (digits_val 0 ds)"
  by (simp add: toLongLong_def)

lemma wrap64_id: "0 \<le> x \<Longrightarrow> x < 2 ^ 63 \<Longrightarrow> wrap64 x = x"
  by (simp add: wrap64_def)

lemma multiplier_pos: "1 \<le> multiplier u"
  by (simp add: multiplier_def)

lemma in_bytes_conforming:
  assumes "ds \<noteq> []" and "list_all is_digit ds"
    and "u \<in> set ('''' # unit_letters)" and "b \<in> set b_suffixes"
    and "int (digits_val 0 ds) * multiplier u < 2 ^ 63"
  shows "in_bytes (ds @ u @ b) = Inr (int (digits_val 0 ds) * multiplier u)"
proof -
  let ?v = "int (digits_val 0 ds)"
  have "?v * 1 \<le> ?v * multiplier u"
    by (rule mult_left_mono) (simp_all add: multiplier_pos)
  with assms(5) have v: "?v < 2 ^ 63" by simp
  have w: "wrap64 (?v * multiplier u) = ?v * multiplier u"
    using assms(5) multiplier_pos [of u] by (intro wrap64_id) simp_all
  have m: "exactMatch (ds @ u @ b) = Some (ds, u)"
    using assms(1-4) by (rule exactMatch_conforming)
  from assms(3) consider "u = ''''" | "u = ''k''" | "u = ''K''" | "u = ''m''" | "u = ''M''"
    | "u = ''g''" | "u = ''G''"
    by (auto simp: unit_letters_def)
  then show ?thesis
  proof cases
    case 1
    then show ?thesis using assms(1) m toLongLong_in_range [OF v]
      by (simp add: in_bytes_def multiplier_def)
  qed (use assms(1) m w toLongLong_in_range [OF v] in
       \<open>simp_all add: in_bytes_def multiplier_def to_lower_def giga_def mega_def kilo_def\<close>)
qed

lemma in_bytes_no_leading_digit:
  assumes "s \<noteq> []" and "\<not> is_digit (hd s)"
  shows "in_bytes s = Inl (InvalidMemorySizeException s)"
proof -
  from assms have "takeWhile is_digit s = []"
    by (cases s) auto
  then have "exactMatch s = None"
    by (simp add: exactMatch_def Let_def)
  with assms(1) show ?thesis
    by (simp add: in_bytes_def)
qed


lemmas parse_defs =
  MemorySize_of_def in_bytes_def exactMatch_def is_digit_def digits_def to_lower_def
  toLongLong_def digit_val_def wrap64_def giga_def mega_def kilo_def




text \<open>
  C8, as amended.  The leading digits are required: every non-empty input that
  consists only of a unit letter (k, m, g in either case) and/or a trailing b or B,
  with no digits, is rejected with the invalid-memory-size error.
\<close>

theorem memory_size_digits_required:
  assumes "u \<in> set ('''' # unit_letters)" and "b \<in> set b_suffixes" and "u @ b \<noteq> []"
  shows "MemorySize_of (u @ b) = Inl (InvalidMemorySizeException (u @ b))"
proof -
  from suffix_no_digit [OF assms(1,2)] assms(3) have "\<not> is_digit (hd (u @ b))"
    by blast
  with assms(3) have "in_bytes (u @ b) = Inl (InvalidMemorySizeException (u @ b))"
    by (rule in_bytes_no_leading_digit)
  then show ?thesis
    by (simp add: MemorySize_of_def)
qed

theorem memory_size_digits_required_witness:
  "''M'' \<in> set ('''' # unit_letters) \<and> ''B'' \<in> set b_suffixes \<and> ''M'' @ ''B'' \<noteq> []
   \<and> MemorySize_of ''MB'' = Inl (InvalidMemorySizeException ''MB'')"
proof -
  have h1: "''M'' \<in> set ('''' # unit_letters)" by (simp add: unit_letters_def)
  have h2: "''B'' \<in> set b_suffixes" by (simp add: b_suffixes_def)
  have h3: "''M'' @ ''B'' \<noteq> []" by simp
  show ?thesis
    using memory_size_digits_required [OF h1 h2 h3] h1 h2 by simp
qed

text \<open>C8 as stated fails: the input \<open>K\<close> has a unit letter and no digits, and is rejected.\<close>

theorem memory_size_digits_optional_counterexample:
  "''K'' \<noteq> [] \<and> exactMatch ''K'' = None
   \<and> MemorySize_of ''K'' = Inl (InvalidMemorySizeException ''K'')"
  by (simp add: parse_defs)

text \<open>
  C10.  The input \<open>99999999999999999999G\<close> matches the grammar, its digits exceed the
  signed 64-bit range, the conversion of the digits therefore yields 0, and the
  parse does not fail: the resulting size equals the size of zero bytes.
\<close>

theorem memory_size_overflow_yields_zero:
  "exactMatch ''99999999999999999999G'' = Some (''99999999999999999999'', ''G'')
   \<and> (2::int) ^ 63 \<le> int (digits_val 0 ''99999999999999999999'')
   \<and> toLongLong ''99999999999999999999'' = 0
   \<and> MemorySize_of ''99999999999999999999G'' = Inr \<lparr>bytes = 0\<rparr>
   \<and> MemorySize_eq \<lparr>bytes = 0\<rparr> MemorySize_default"
  by (simp add: parse_defs MemorySize_eq_def MemorySize_default_def)


section \<open>Decimal rendering\<close>

lemma string_of_nat_no_leading_zero: "0 < n \<Longrightarrow> hd (string_of_nat n) \<noteq> CHR ''0''"
proof (induction n rule: string_of_nat.induct)
  case (1 n)
  show ?case
  proof (cases "n < 10")
    case True
    with "1.prems" have "n \<in> {1, 2, 3, 4, 5, 6, 7, 8, 9}" by auto
    then show ?thesis
      by (subst string_of_nat.simps) (auto simp: digit_char_def digits_def)
  next
    case False
    then have "0 < n div 10" by simp
    with "1.IH" False have "hd (string_of_nat (n div 10)) \<noteq> CHR ''0''" by simp
    with False show ?thesis
      by (subst string_of_nat.simps) (simp add: string_of_nat_nonempty)
  qed
qed

lemma number_nonneg:
  assumes "0 \<le> i"
  shows "number i \<noteq> []" and "set (number i) \<subseteq> set ''0123456789''"
    and "int (digits_val 0 (number i)) = i"
proof -
  from assms have n: "number i = string_of_nat (nat i)"
    by (simp add: number_def)
  show "number i \<noteq> []"
    by (simp add: n string_of_nat_nonempty)
  show "set (number i) \<subseteq> set ''0123456789''"
    using string_of_nat_digits [of "nat i"]
    unfolding n list_all_iff is_digit_def digits_def by blast
  show "int (digits_val 0 (number i)) = i"
    using assms by (simp add: n digits_val_string_of_nat)
qed

lemma number_digit: "0 \<le> i \<Longrightarrow> i < 10 \<Longrightarrow> number i = [''0123456789'' ! nat i]"
  by (subst number_def, subst string_of_nat.simps) (simp add: digit_char_def digits_def)

lemma number_step:
  assumes "10 \<le> i"
  shows "number i = number (i div 10) @ number (i mod 10)"
proof -
  have d: "nat i div 10 = nat (i div 10)" and m: "nat i mod 10 = nat (i mod 10)"
    using assms by (simp_all add: nat_div_distrib nat_mod_distrib)
  have "\<not> nat i < 10" using assms by simp
  then have "string_of_nat (nat i)
      = string_of_nat (nat i div 10) @ [digit_char (nat i mod 10)]"
    by (subst string_of_nat.simps) simp
  also have "\<dots> = string_of_nat (nat (i div 10)) @ [digit_char (nat (i mod 10))]"
    by (simp only: d m)
  also have "[digit_char (nat (i mod 10))] = string_of_nat (nat (i mod 10))"
    by (subst string_of_nat.simps) simp
  finally have "string_of_nat (nat i)
      = string_of_nat (nat (i div 10)) @ string_of_nat (nat (i mod 10))" .
  moreover have "number i = string_of_nat (nat i)"
    and "number (i div 10) = string_of_nat (nat (i div 10))"
    and "number (i mod 10) = string_of_nat (nat (i mod 10))"
    using assms by (simp_all add: number_def)
  ultimately show ?thesis by (simp only:)
qed

lemma number_negative: "i < 0 \<Longrightarrow> number i = CHR ''-'' # number (- i)"
  by (simp add: number_def)

lemma number_parses_back:
  assumes "0 \<le> bytes d" and "bytes d < 2 ^ 63"
  shows "MemorySize_of (number (bytes d)) = Inr d"
proof -
  from assms(1) have n: "number (bytes d) = string_of_nat (nat (bytes d))"
    by (simp add: number_def)
  have "in_bytes (string_of_nat (nat (bytes d)) @ [] @ [])
          = Inr (int (digits_val 0 (string_of_nat (nat (bytes d)))) * multiplier [])"
    using assms
    by (intro in_bytes_conforming)
       (simp_all add: string_of_nat_nonempty string_of_nat_digits digits_val_string_of_nat
          b_suffixes_def multiplier_def)
  with assms(1) have "in_bytes (number (bytes d)) = Inr (bytes d)"
    by (simp add: n digits_val_string_of_nat multiplier_def)
  then show ?thesis
    by (simp add: MemorySize_of_def)
qed


section \<open>Disk images: resizing and conversion\<close>

lemma sublist_middle: "sublist m (a @ m @ b)"
  by (rule sublist_appendI)

lemma sublist_end: "sublist e (a @ m @ b @ e)"
proof -
  have "a @ m @ b @ e = (a @ m @ b) @ e @ []" by simp
  then show ?thesis by (simp only: sublist_appendI)
qed

text \<open>
  C4.  \<open>resize_instance_image\<close> invokes the tool exactly once, with the arguments
  \<open>resize\<close>, the image path and the decimal byte count of the target size, and with
  the resize timeout.  If that run completed successfully the function returns
  normally; if not, it fails with a runtime error whose text contains the tool's
  failure message and the captured standard error.

  The third argument \<open>arg\<close> is the decimal numeral of the byte count: for a size that
  is not negative it is a non-empty string of decimal digits whose value is the byte
  count, without a leading zero unless the count is below ten, built digit by digit
  as decimal notation is (one digit below ten, otherwise the numeral of the tenth
  part followed by the last digit); for a negative size it is a minus sign followed
  by the numeral of the magnitude; and for every size a MemorySize can hold, parsing
  it gives the size back.  The size \<open>3G\<close> is 3221225472 bytes, and that number is
  passed as the literal \<open>3221225472\<close>.
\<close>

theorem resize_instance_image_spec:
  assumes "p = execute t [''resize'', image_path, number (bytes disk_space)]
                 (Some (image_resize_timeout t))"
    and "arg = number (bytes disk_space)"
  shows "snd (resize_instance_image t disk_space image_path)
           = [([''resize'', image_path, arg], Some (image_resize_timeout t))]
         \<and> (completed_successfully (state p) \<longrightarrow>
              fst (resize_instance_image t disk_space image_path) = Inr ())
         \<and> (\<not> completed_successfully (state p) \<longrightarrow>
              (\<exists>msg. fst (resize_instance_image t disk_space image_path)
                       = Inl (RuntimeError msg)
                     \<and> sublist (failure_message t (state p)) msg
                     \<and> sublist (standard_error p) msg))
         \<and> MemorySize_of ''3G'' = Inr \<lparr>bytes = 3221225472\<rparr>
         \<and> number 3221225472 = ''3221225472''
         \<and> (0 \<le> bytes disk_space \<longrightarrow>
              arg \<noteq> [] \<and> set arg \<subseteq> set ''0123456789''
              \<and> int (digits_val 0 arg) = bytes disk_space)
         \<and> (0 < bytes disk_space \<longrightarrow> hd arg \<noteq> CHR ''0'')
         \<and> (0 \<le> bytes disk_space \<and> bytes disk_space < 10 \<longrightarrow>
              arg = [''0123456789'' ! nat (bytes disk_space)])
         \<and> (10 \<le> bytes disk_space \<longrightarrow>
              arg = number (bytes disk_space div 10) @ number (bytes disk_space mod 10))
         \<and> (bytes disk_space < 0 \<longrightarrow> arg = CHR ''-'' # number (- bytes disk_space))
         \<and> (0 \<le> bytes disk_space \<and> bytes disk_space < 2 ^ 63 \<longrightarrow>
              MemorySize_of arg = Inr disk_space)"
proof (intro conjI impI)
  show "snd (resize_instance_image t disk_space image_path)
          = [([''resize'', image_path, arg], Some (image_resize_timeout t))]"
    by (simp add: resize_instance_image_def Let_def MemorySize_in_bytes_def assms(2))
next
  assume "completed_successfully (state p)"
  with assms(1) show "fst (resize_instance_image t disk_space image_path) = Inr ()"
    by (simp add: resize_instance_image_def Let_def MemorySize_in_bytes_def)
next
  assume "\<not> completed_successfully (state p)"
  with assms(1) have "fst (resize_instance_image t disk_space image_path)
      = Inl (RuntimeError (''Cannot resize instance image: qemu-img failed (''
               @ failure_message t (state p) @ ('') with output:'' @ [CHR 0x0A])
               @ standard_error p))"
    by (simp add: resize_instance_image_def Let_def MemorySize_in_bytes_def)
  then show "\<exists>msg. fst (resize_instance_image t disk_space image_path)
                     = Inl (RuntimeError msg)
                   \<and> sublist (failure_message t (state p)) msg
                   \<and> sublist (standard_error p) msg"
    using sublist_middle sublist_end by blast
next
  show "MemorySize_of ''3G'' = Inr \<lparr>bytes = 3221225472\<rparr>"
    by (simp add: parse_defs)
next
  show "number 3221225472 = ''3221225472''"
    by (simp add: number_def string_of_nat.simps digit_char_def digits_def)
next
  assume "0 \<le> bytes disk_space"
  then show "arg \<noteq> []" and "set arg \<subseteq> set ''0123456789''"
    and "int (digits_val 0 arg) = bytes disk_space"
    unfolding assms(2) by (rule number_nonneg)+
next
  assume "0 < bytes disk_space"
  then show "hd arg \<noteq> CHR ''0''"
    unfolding assms(2) using string_of_nat_no_leading_zero [of "nat (bytes disk_space)"]
    by (simp add: number_def)
next
  assume "0 \<le> bytes disk_space \<and> bytes disk_space < 10"
  then show "arg = [''0123456789'' ! nat (bytes disk_space)]"
    unfolding assms(2) by (intro number_digit) simp_all
next
  assume "10 \<le> bytes disk_space"
  then show "arg = number (bytes disk_space div 10) @ number (bytes disk_space mod 10)"
    unfolding assms(2) by (rule number_step)
next
  assume "bytes disk_space < 0"
  then show "arg = CHR ''-'' # number (- bytes disk_space)"
    unfolding assms(2) by (rule number_negative)
next
  assume "0 \<le> bytes disk_space \<and> bytes disk_space < 2 ^ 63"
  then show "MemorySize_of arg = Inr disk_space"
    unfolding assms(2) by (intro number_parses_back) simp_all
qed

theorem resize_instance_image_spec_witness:
  "completed_successfully (state (execute tools_success [''resize'', ''/fake/img/path'',
       number (bytes \<lparr>bytes = 3221225472\<rparr>)] (Some (image_resize_timeout tools_success))))
   \<and> resize_instance_image tools_success \<lparr>bytes = 3221225472\<rparr> ''/fake/img/path''
       = (Inr (), [([''resize'', ''/fake/img/path'', ''3221225472''], Some 300000)])
   \<and> \<not> completed_successfully (state (execute tools_crash [''resize'', ''ubuntu'',
       number (bytes \<lparr>bytes = 419430400\<rparr>)] (Some (image_resize_timeout tools_crash))))
   \<and> (\<exists>msg. fst (resize_instance_image tools_crash \<lparr>bytes = 419430400\<rparr> ''ubuntu'')
               = Inl (RuntimeError msg)
           \<and> sublist ''core dumped'' msg \<and> sublist ''qemu-img: write error'' msg)
   \<and> int (digits_val 0 ''3221225472'') = 3221225472
   \<and> hd ''3221225472'' \<noteq> CHR ''0''
   \<and> ''3221225472'' = number 322122547 @ number 2
   \<and> MemorySize_of ''3221225472'' = Inr \<lparr>bytes = 3221225472\<rparr>
   \<and> snd (resize_instance_image tools_success \<lparr>bytes = 7\<rparr> ''img'')
       = [([''resize'', ''img'', ''7''], Some 300000)]
   \<and> snd (resize_instance_image tools_success \<lparr>bytes = - 5\<rparr> ''img'')
       = [([''resize'', ''img'', CHR ''-'' # number 5], Some 300000)]"
proof -
  have n: "number 3221225472 = ''3221225472''"
    by (simp add: number_def string_of_nat.simps digit_char_def digits_def)
  have ok: "completed_successfully (state (execute tools_success [''resize'',
      ''/fake/img/path'', number (bytes \<lparr>bytes = 3221225472\<rparr>)]
      (Some (image_resize_timeout tools_success))))"
    by (simp add: tools_success_def completed_successfully_def)
  have bad: "\<not> completed_successfully (state (execute tools_crash [''resize'', ''ubuntu'',
      number (bytes \<lparr>bytes = 419430400\<rparr>)] (Some (image_resize_timeout tools_crash))))"
    by (simp add: tools_crash_def completed_successfully_def)
  note big = resize_instance_image_spec [where t = tools_success
      and image_path = "''/fake/img/path''" and disk_space = "\<lparr>bytes = 3221225472\<rparr>",
      OF refl refl]
  have a: "resize_instance_image tools_success \<lparr>bytes = 3221225472\<rparr> ''/fake/img/path''
       = (Inr (), [([''resize'', ''/fake/img/path'', ''3221225472''], Some 300000)])"
    using big [THEN conjunct1] big [THEN conjunct2, THEN conjunct1] ok n
    by (simp add: prod_eq_iff tools_success_def)
  have b: "\<exists>msg. fst (resize_instance_image tools_crash \<lparr>bytes = 419430400\<rparr> ''ubuntu'')
               = Inl (RuntimeError msg)
           \<and> sublist ''core dumped'' msg \<and> sublist ''qemu-img: write error'' msg"
    using resize_instance_image_spec [where t = tools_crash
        and image_path = "''ubuntu''" and disk_space = "\<lparr>bytes = 419430400\<rparr>",
        OF refl refl, THEN conjunct2, THEN conjunct2, THEN conjunct1] bad
    by (simp add: tools_crash_def sample_failure_message_def)
  let ?d = "\<lparr>bytes = 3221225472\<rparr> :: MemorySize"
  have h: "0 \<le> bytes ?d" "0 < bytes ?d" "10 \<le> bytes ?d" "0 \<le> bytes ?d \<and> bytes ?d < 2 ^ 63"
    by simp_all
  from big h have c': "int (digits_val 0 (number (bytes ?d))) = bytes ?d"
    "hd (number (bytes ?d)) \<noteq> CHR ''0''"
    "number (bytes ?d) = number (bytes ?d div 10) @ number (bytes ?d mod 10)"
    "MemorySize_of (number (bytes ?d)) = Inr ?d"
    by blast+
  have ev: "bytes ?d = 3221225472" "(3221225472::int) div 10 = 322122547"
    "(3221225472::int) mod 10 = 2"
    by simp_all
  note c = c' [unfolded ev n]
  have d: "snd (resize_instance_image tools_success \<lparr>bytes = 7\<rparr> ''img'')
       = [([''resize'', ''img'', ''7''], Some 300000)]"
    using resize_instance_image_spec [where t = tools_success
        and image_path = "''img''" and disk_space = "\<lparr>bytes = 7\<rparr>", OF refl refl]
    by (simp add: tools_success_def)
  have e: "snd (resize_instance_image tools_success \<lparr>bytes = - 5\<rparr> ''img'')
       = [([''resize'', ''img'', CHR ''-'' # number 5], Some 300000)]"
    using resize_instance_image_spec [where t = tools_success
        and image_path = "''img''" and disk_space = "\<lparr>bytes = - 5\<rparr>", OF refl refl]
    by (simp add: tools_success_def)
  from ok a bad b c d e show ?thesis by blast
qed

lemma format_of_malformed: "toString (map_of (object None) ''format'') = []"
  by (simp add: object_def toString_def)

lemma format_of_missing:
  "map_of members ''format'' = None
   \<Longrightarrow> toString (map_of (object (Some (JObject members))) ''format'') = []"
  by (simp add: object_def toString_def)

text \<open>
  C3.  With \<open>info\<close> the run of \<open>qemu-img info\<close>, \<open>conv\<close> the run of
  \<open>qemu-img convert\<close> and \<open>fmt\<close> the string read from the \<open>format\<close> member of the
  parsed output:
  \<^item> if \<open>info\<close> succeeds and \<open>fmt\<close> is not \<open>raw\<close>, the original path is returned and
    the tool was invoked exactly once; output that does not parse gives the empty
    \<open>fmt\<close> and so belongs to this case;
  \<^item> if \<open>info\<close> succeeds, \<open>fmt\<close> is \<open>raw\<close> and \<open>conv\<close> succeeds, the path with
    \<open>.qcow2\<close> appended is returned and the tool was invoked exactly twice;
  \<^item> if \<open>info\<close> fails, or \<open>fmt\<close> is \<open>raw\<close> and \<open>conv\<close> fails, the function fails
    with a runtime error whose text contains the failure message of the failing run
    and its captured standard error.
\<close>

theorem convert_to_qcow_if_necessary_spec:
  assumes i: "info = execute t [''info'', ''--output=json'', image_path] None"
    and c: "conv = execute t [''convert'', ''-p'', ''-O'', ''qcow2'', image_path,
                              image_path @ ''.qcow2''] (Some (image_resize_timeout t))"
    and f: "fmt = toString (map_of (object (fromJson t (standard_output info))) ''format'')"
    and ic: "info_call = ([''info'', ''--output=json'', image_path], None)"
    and cc: "conv_call = ([''convert'', ''-p'', ''-O'', ''qcow2'', image_path,
                           image_path @ ''.qcow2''], Some (image_resize_timeout t))"
  shows "(completed_successfully (state info) \<and> fmt \<noteq> ''raw'' \<longrightarrow>
            convert_to_qcow_if_necessary t image_path = (Inr image_path, [info_call]))
       \<and> (fromJson t (standard_output info) = None \<longrightarrow> fmt \<noteq> ''raw'')
       \<and> (completed_successfully (state info) \<and> fmt = ''raw''
            \<and> completed_successfully (state conv) \<longrightarrow>
            convert_to_qcow_if_necessary t image_path
              = (Inr (image_path @ ''.qcow2''), [info_call, conv_call]))
       \<and> (\<not> completed_successfully (state info) \<longrightarrow>
            (\<exists>msg. convert_to_qcow_if_necessary t image_path
                     = (Inl (RuntimeError msg), [info_call])
                  \<and> sublist (failure_message t (state info)) msg
                  \<and> sublist (standard_error info) msg))
       \<and> (completed_successfully (state info) \<and> fmt = ''raw''
            \<and> \<not> completed_successfully (state conv) \<longrightarrow>
            (\<exists>msg. convert_to_qcow_if_necessary t image_path
                     = (Inl (RuntimeError msg), [info_call, conv_call])
                  \<and> sublist (failure_message t (state conv)) msg
                  \<and> sublist (standard_error conv) msg))"
proof (intro conjI impI)
  assume "completed_successfully (state info) \<and> fmt \<noteq> ''raw''"
  with i f ic show "convert_to_qcow_if_necessary t image_path = (Inr image_path, [info_call])"
    by (simp add: convert_to_qcow_if_necessary_def Let_def)
next
  assume "fromJson t (standard_output info) = None"
  with f show "fmt \<noteq> ''raw''"
    by (simp add: format_of_malformed)
next
  assume "completed_successfully (state info) \<and> fmt = ''raw''
          \<and> completed_successfully (state conv)"
  with i c f ic cc show "convert_to_qcow_if_necessary t image_path
      = (Inr (image_path @ ''.qcow2''), [info_call, conv_call])"
    by (simp add: convert_to_qcow_if_necessary_def Let_def)
next
  assume "\<not> completed_successfully (state info)"
  with i ic have "convert_to_qcow_if_necessary t image_path
      = (Inl (RuntimeError (''Cannot read image format: qemu-img failed (''
               @ failure_message t (state info) @ ('') with output:'' @ [CHR 0x0A])
               @ standard_error info)), [info_call])"
    by (simp add: convert_to_qcow_if_necessary_def Let_def)
  then show "\<exists>msg. convert_to_qcow_if_necessary t image_path
                     = (Inl (RuntimeError msg), [info_call])
                  \<and> sublist (failure_message t (state info)) msg
                  \<and> sublist (standard_error info) msg"
    using sublist_middle sublist_end by blast
next
  assume "completed_successfully (state info) \<and> fmt = ''raw''
          \<and> \<not> completed_successfully (state conv)"
  with i c f ic cc have "convert_to_qcow_if_necessary t image_path
      = (Inl (RuntimeError (''Failed to convert image format: qemu-img failed (''
               @ failure_message t (state conv) @ ('') with output:'' @ [CHR 0x0A])
               @ standard_error conv)), [info_call, conv_call])"
    by (simp add: convert_to_qcow_if_necessary_def Let_def)
  then show "\<exists>msg. convert_to_qcow_if_necessary t image_path
                     = (Inl (RuntimeError msg), [info_call, conv_call])
                  \<and> sublist (failure_message t (state conv)) msg
                  \<and> sublist (standard_error conv) msg"
    using sublist_middle sublist_end by blast
qed

lemma json_format_text_neq: "json_format_text ''qcow2'' \<noteq> json_format_text ''raw''"
  by (simp add: json_format_text_def)

theorem convert_to_qcow_if_necessary_spec_witness:
  "convert_to_qcow_if_necessary tools_success ''/fake/img/path''
     = (Inr ''/fake/img/path'', [([''info'', ''--output=json'', ''/fake/img/path''], None)])
   \<and> convert_to_qcow_if_necessary (tools_raw True) ''/fake/img/path''
     = (Inr ''/fake/img/path.qcow2'',
        [([''info'', ''--output=json'', ''/fake/img/path''], None),
         ([''convert'', ''-p'', ''-O'', ''qcow2'', ''/fake/img/path'', ''/fake/img/path.qcow2''],
          Some 300000)])
   \<and> (\<exists>msg. convert_to_qcow_if_necessary tools_crash ''/fake/img/path''
               = (Inl (RuntimeError msg), [([''info'', ''--output=json'', ''/fake/img/path''], None)])
           \<and> sublist ''core dumped'' msg \<and> sublist ''qemu-img: write error'' msg)
   \<and> (\<exists>msg. convert_to_qcow_if_necessary (tools_raw False) ''/fake/img/path''
               = (Inl (RuntimeError msg),
                  [([''info'', ''--output=json'', ''/fake/img/path''], None),
                   ([''convert'', ''-p'', ''-O'', ''qcow2'', ''/fake/img/path'',
                     ''/fake/img/path.qcow2''], Some 300000)])
           \<and> sublist ''Process returned exit code: 1'' msg
           \<and> sublist ''qemu-img: no space left'' msg)
   \<and> fromJson tools_crash (standard_output (execute tools_crash
         [''info'', ''--output=json'', ''/fake/img/path''] None)) = None"
proof -
  note spec = convert_to_qcow_if_necessary_spec [where image_path = "''/fake/img/path''",
      OF refl refl refl refl refl]
  have one: "number 1 = ''1''"
    by (simp add: number_def string_of_nat.simps digit_char_def digits_def)
  have a: "convert_to_qcow_if_necessary tools_success ''/fake/img/path''
     = (Inr ''/fake/img/path'', [([''info'', ''--output=json'', ''/fake/img/path''], None)])"
    using spec [where t = tools_success] json_format_text_neq
    by (simp add: tools_success_def completed_successfully_def sample_fromJson_def
        object_def toString_def)
  have b: "convert_to_qcow_if_necessary (tools_raw True) ''/fake/img/path''
     = (Inr ''/fake/img/path.qcow2'',
        [([''info'', ''--output=json'', ''/fake/img/path''], None),
         ([''convert'', ''-p'', ''-O'', ''qcow2'', ''/fake/img/path'', ''/fake/img/path.qcow2''],
          Some 300000)])"
    using spec [where t = "tools_raw True"] json_format_text_neq
    by (simp add: tools_raw_def completed_successfully_def sample_fromJson_def
        object_def toString_def)
  have c: "\<exists>msg. convert_to_qcow_if_necessary tools_crash ''/fake/img/path''
               = (Inl (RuntimeError msg), [([''info'', ''--output=json'', ''/fake/img/path''], None)])
           \<and> sublist ''core dumped'' msg \<and> sublist ''qemu-img: write error'' msg"
    using spec [where t = tools_crash]
    by (simp add: tools_crash_def completed_successfully_def sample_failure_message_def)
  have d: "\<exists>msg. convert_to_qcow_if_necessary (tools_raw False) ''/fake/img/path''
               = (Inl (RuntimeError msg),
                  [([''info'', ''--output=json'', ''/fake/img/path''], None),
                   ([''convert'', ''-p'', ''-O'', ''qcow2'', ''/fake/img/path'',
                     ''/fake/img/path.qcow2''], Some 300000)])
           \<and> sublist ''Process returned exit code: 1'' msg
           \<and> sublist ''qemu-img: no space left'' msg"
    using spec [where t = "tools_raw False"] json_format_text_neq one
    by (simp add: tools_raw_def completed_successfully_def sample_fromJson_def
        object_def toString_def sample_failure_message_def)
  have e: "fromJson tools_crash (standard_output (execute tools_crash
         [''info'', ''--output=json'', ''/fake/img/path''] None)) = None"
    by (simp add: tools_crash_def sample_fromJson_def json_format_text_def)
  from a b c d e show ?thesis by blast
qed


section \<open>The acceleration device: busy check and descriptors\<close>

lemma first_free_fresh:
  "card {x \<in> set fds. c \<le> x} \<le> k
   \<Longrightarrow> first_free k c fds \<notin> set fds \<and> c \<le> first_free k c fds"
proof (induction k arbitrary: c)
  case 0
  then have "{x \<in> set fds. c \<le> x} = {}" by simp
  then show ?case by auto
next
  case (Suc k)
  show ?case
  proof (cases "c \<in> set fds")
    case True
    have "{x \<in> set fds. c + 1 \<le> x} = {x \<in> set fds. c \<le> x} - {c}" by auto
    moreover have "c \<in> {x \<in> set fds. c \<le> x}" using True by simp
    ultimately have "card {x \<in> set fds. c + 1 \<le> x} = card {x \<in> set fds. c \<le> x} - 1"
      by simp
    with Suc.prems have "card {x \<in> set fds. c + 1 \<le> x} \<le> k" by simp
    from Suc.IH [OF this] True show ?thesis by auto
  next
    case False
    then show ?thesis by simp
  qed
qed

lemma lowest_free_fresh: "lowest_free fds \<notin> set fds" and lowest_free_nonneg: "0 \<le> lowest_free fds"
proof -
  have "card {x \<in> set fds. 0 \<le> x} \<le> card (set fds)"
    by (rule card_mono) auto
  also have "\<dots> \<le> length fds" by (rule card_length)
  finally have "first_free (length fds) 0 fds \<notin> set fds \<and> 0 \<le> first_free (length fds) 0 fds"
    by (rule first_free_fresh)
  then show "lowest_free fds \<notin> set fds" and "0 \<le> lowest_free fds"
    by (simp_all add: lowest_free_def)
qed

lemma EBADF_not_EBUSY: "EBADF \<noteq> EBUSY"
  by (simp add: EBADF_def EBUSY_def)

text \<open>The three ways a run can go: the device cannot be opened, the probe fails, the probe succeeds.\<close>

lemma check_open_fails:
  assumes "open_failure dev = Some e"
  shows "check_if_kvm_is_in_use dev k
         = (Inr (), k\<lparr>errno := EBADF\<rparr>,
            [Open ''/dev/kvm'' (- 1), Ioctl (- 1) (- 1), Close (- 1) (- 1), Close (- 1) (- 1)])"
  using assms EBADF_not_EBUSY
  by (simp add: check_if_kvm_is_in_use_def sys_open_def sys_ioctl_def sys_close_def)

lemma check_probe_fails:
  assumes "open_failure dev = None" and "create_vm_failure dev = Some e"
    and "kvm_fd = lowest_free (open_fds k)"
  shows "check_if_kvm_is_in_use dev k
         = (if e = EBUSY
            then (Inl (RuntimeError (''Another virtual machine manager is currently running. ''
                    @ ''Please shut it down before starting a Multipass instance.'')),
                  k\<lparr>errno := e\<rparr>,
                  [Open ''/dev/kvm'' kvm_fd, Ioctl kvm_fd (- 1), Close kvm_fd 0])
            else (Inr (), k\<lparr>errno := EBADF\<rparr>,
                  [Open ''/dev/kvm'' kvm_fd, Ioctl kvm_fd (- 1), Close kvm_fd 0,
                   Close (- 1) (- 1)]))"
proof -
  have "kvm_fd \<notin> set (open_fds k)" and "\<not> kvm_fd < 0"
    using assms(3) lowest_free_fresh [of "open_fds k"] lowest_free_nonneg [of "open_fds k"]
    by simp_all
  then show ?thesis
    using assms
    by (simp add: check_if_kvm_is_in_use_def sys_open_def sys_ioctl_def sys_close_def Let_def)
qed

lemma check_probe_succeeds:
  assumes "open_failure dev = None" and "create_vm_failure dev = None"
    and "kvm_fd = lowest_free (open_fds k)" and "vm = lowest_free (kvm_fd # open_fds k)"
  shows "check_if_kvm_is_in_use dev k
         = (Inr (), k, [Open ''/dev/kvm'' kvm_fd, Ioctl kvm_fd vm, Close kvm_fd 0, Close vm 0])"
proof -
  have a: "kvm_fd \<notin> set (open_fds k)" "\<not> kvm_fd < 0"
    using assms(3) lowest_free_fresh [of "open_fds k"] lowest_free_nonneg [of "open_fds k"]
    by simp_all
  have b: "vm \<noteq> kvm_fd" "vm \<notin> set (open_fds k)" "\<not> vm < 0" "vm \<noteq> - 1"
    using assms(4) lowest_free_fresh [of "kvm_fd # open_fds k"]
      lowest_free_nonneg [of "kvm_fd # open_fds k"]
    by auto
  show ?thesis
    using assms(1,2) assms(3,4) [symmetric] a b
    by (simp add: check_if_kvm_is_in_use_def sys_open_def sys_ioctl_def sys_close_def Let_def)
qed

text \<open>
  C9.  \<open>check_if_kvm_is_in_use\<close> fails, with the error that another virtual machine
  manager is running, exactly when the device was opened and the \<open>KVM_CREATE_VM\<close>
  probe on it failed with \<open>EBUSY\<close>; in every other case, the one where the device
  cannot be opened included, it returns normally.  The third system call of every
  run closes the descriptor that \<open>open\<close> returned, before the error is raised or the
  function goes on; when the device was opened that \<open>close\<close> succeeds, and in every
  case the process holds the same descriptors open afterwards as before.
\<close>

theorem check_if_kvm_is_in_use_spec:
  "fst (check_if_kvm_is_in_use dev k)
     = (if open_failure dev = None \<and> create_vm_failure dev = Some EBUSY
        then Inl (RuntimeError (''Another virtual machine manager is currently running. ''
                    @ ''Please shut it down before starting a Multipass instance.''))
        else Inr ())
   \<and> open_fds (fst (snd (check_if_kvm_is_in_use dev k))) = open_fds k
   \<and> (\<exists>kvm_fd ret c rest.
         snd (snd (check_if_kvm_is_in_use dev k))
           = Open ''/dev/kvm'' kvm_fd # Ioctl kvm_fd ret # Close kvm_fd c # rest
       \<and> kvm_fd = (if open_failure dev = None then lowest_free (open_fds k) else - 1)
       \<and> c = (if open_failure dev = None then 0 else - 1)
       \<and> ret = (if open_failure dev = None \<and> create_vm_failure dev = None
                then lowest_free (kvm_fd # open_fds k) else - 1)
       \<and> rest = (if open_failure dev = None \<and> create_vm_failure dev = Some EBUSY then []
                 else [Close ret (if ret = - 1 then - 1 else 0)]))"
proof (cases "open_failure dev")
  case (Some e)
  then show ?thesis
    by (simp add: check_open_fails)
next
  case None
  note opened = this
  show ?thesis
  proof (cases "create_vm_failure dev")
    case (Some e)
    from check_probe_fails [OF opened Some refl, of k] opened Some show ?thesis
      by (cases "e = EBUSY") simp_all
  next
    case None
    have "lowest_free (lowest_free (open_fds k) # open_fds k) \<noteq> - 1"
      using lowest_free_nonneg [of "lowest_free (open_fds k) # open_fds k"] by simp
    with check_probe_succeeds [OF opened None refl refl, of k] opened None show ?thesis
      by simp
  qed
qed


section \<open>Subnet allocation\<close>

lemma contains_iff_sublist: "contains s sub \<longleftrightarrow> sublist sub s"
  by (induction s) (auto simp: sublist_Cons_right)

lemma generate_from_step:
  "i < 100 \<Longrightarrow> generate_from h i
     = (if rejected h (candidate h i) then generate_from h (Suc i)
        else (Inr (candidate h i), Suc i))"
  by (subst generate_from.simps) (simp add: rejected_def Let_def)

lemma generate_from_stop: "\<not> i < 100 \<Longrightarrow> generate_from h i = (Inl subnet_exhausted, i)"
  by (subst generate_from.simps) (simp add: subnet_exhausted_def)

declare generate_from.simps [simp del]

text \<open>
  What the loop returns when entered with counter \<open>i\<close>: the first candidate from
  \<open>i\<close> on that is not rejected, or the error after the hundredth.
\<close>

lemma generate_from_result:
  assumes "i \<le> 100" and "generate_from h i = (r, n)"
  shows "(\<exists>subnet. r = Inr subnet \<and> i < n \<and> n \<le> 100 \<and> subnet = candidate h (n - 1)
            \<and> \<not> rejected h subnet
            \<and> (\<forall>j. i \<le> j \<and> j < n - 1 \<longrightarrow> rejected h (candidate h j)))
         \<or> (r = Inl subnet_exhausted \<and> n = 100
            \<and> (\<forall>j. i \<le> j \<and> j < 100 \<longrightarrow> rejected h (candidate h j)))"
  using assms
proof (induction "100 - i" arbitrary: i)
  case 0
  then have "i = 100" by simp
  with "0.prems" show ?case by (auto simp: generate_from_stop)
next
  case (Suc d)
  then have lt: "i < 100" by simp
  show ?case
  proof (cases "rejected h (candidate h i)")
    case False
    with Suc.prems lt show ?thesis
      by (auto simp: generate_from_step)
  next
    case True
    with Suc.prems lt have g: "generate_from h (Suc i) = (r, n)"
      by (simp add: generate_from_step)
    have "d = 100 - Suc i" and "Suc i \<le> 100" using Suc.hyps(2) lt by simp_all
    from Suc.hyps(1) [OF this g] show ?thesis
    proof (elim disjE exE conjE)
      fix subnet
      assume *: "r = Inr subnet" "Suc i < n" "n \<le> 100" "subnet = candidate h (n - 1)"
        "\<not> rejected h subnet" "\<forall>j. Suc i \<le> j \<and> j < n - 1 \<longrightarrow> rejected h (candidate h j)"
      have "\<forall>j. i \<le> j \<and> j < n - 1 \<longrightarrow> rejected h (candidate h j)"
      proof (intro allI impI)
        fix j assume "i \<le> j \<and> j < n - 1"
        then have "j = i \<or> (Suc i \<le> j \<and> j < n - 1)" by auto
        with True * show "rejected h (candidate h j)" by blast
      qed
      with * show ?thesis by auto
    next
      assume *: "r = Inl subnet_exhausted" "n = 100"
        "\<forall>j. Suc i \<le> j \<and> j < 100 \<longrightarrow> rejected h (candidate h j)"
      have "\<forall>j. i \<le> j \<and> j < 100 \<longrightarrow> rejected h (candidate h j)"
      proof (intro allI impI)
        fix j assume "i \<le> j \<and> j < 100"
        then have "j = i \<or> (Suc i \<le> j \<and> j < 100)" by auto
        with True * show "rejected h (candidate h j)" by blast
      qed
      with * show ?thesis by simp
    qed
  qed
qed

text \<open>Conversely: where every candidate is rejected the loop runs to the end.\<close>

lemma generate_from_all_rejected:
  assumes "\<forall>j. rejected h (candidate h j)" and "i \<le> 100"
  shows "generate_from h i = (Inl subnet_exhausted, 100)"
  using assms(2)
proof (induction "100 - i" arbitrary: i)
  case 0
  then show ?case by (simp add: generate_from_stop)
next
  case (Suc d)
  then have "i < 100" and "d = 100 - Suc i" and "Suc i \<le> 100" by simp_all
  with Suc.hyps(1) assms(1) show ?case
    by (simp add: generate_from_step)
qed

lemma candidate_octets:
  "\<exists>a b. a \<le> 255 \<and> b \<le> 255
         \<and> candidate h i = ''10.'' @ string_of_nat a @ ''.'' @ string_of_nat b"
proof -
  have "unat (w :: 8 word) \<le> 255" for w
    using unsigned_less [of w, where ?'a = nat] by simp
  then show ?thesis
    unfolding candidate_def by blast
qed

text \<open>
  C5.  Every run of \<open>generate_random_subnet\<close> ends in one of two ways.  Either it
  returns, after at most 100 draws, the candidate drawn last: a prefix \<open>10.A.B\<close> with
  \<open>A\<close> and \<open>B\<close> between 0 and 255 that the routing-table check reports unused (it does
  not occur in the output of the routing table) and whose gateway probes on \<open>.1\<close> and
  \<open>.254\<close> both fail, every earlier candidate having been rejected.  Or it has drawn
  exactly 100 candidates, each rejected by one of the three checks, and fails with
  the error that no subnet could be determined.
\<close>

theorem generate_random_subnet_spec:
  assumes "generate_random_subnet h = (r, n)"
  shows "(\<exists>subnet a b. r = Inr subnet \<and> 0 < n \<and> n \<le> 100 \<and> subnet = candidate h (n - 1)
            \<and> a \<le> 255 \<and> b \<le> 255
            \<and> subnet = ''10.'' @ string_of_nat a @ ''.'' @ string_of_nat b
            \<and> \<not> subnet_used_locally h subnet
            \<and> \<not> sublist subnet (ip_route_show h)
            \<and> \<not> can_reach_gateway h (subnet @ ''.1'')
            \<and> \<not> can_reach_gateway h (subnet @ ''.254'')
            \<and> (\<forall>j < n - 1. rejected h (candidate h j)))
         \<or> (r = Inl (RuntimeError ''Could not determine a subnet for networking.'')
            \<and> n = 100 \<and> (\<forall>j < 100. rejected h (candidate h j)))"
proof -
  from assms have "generate_from h 0 = (r, n)"
    by (simp add: generate_random_subnet_def)
  from generate_from_result [OF _ this] consider
    (found) subnet where "r = Inr subnet" "0 < n" "n \<le> 100" "subnet = candidate h (n - 1)"
      "\<not> rejected h subnet" "\<forall>j < n - 1. rejected h (candidate h j)"
    | (exhausted) "r = Inl subnet_exhausted" "n = 100" "\<forall>j < 100. rejected h (candidate h j)"
    by auto
  then show ?thesis
  proof cases
    case found
    from candidate_octets [of h "n - 1"] found(4) obtain a b where
      "a \<le> 255" "b \<le> 255" "subnet = ''10.'' @ string_of_nat a @ ''.'' @ string_of_nat b"
      by auto
    moreover from found(5) have "\<not> subnet_used_locally h subnet"
      "\<not> can_reach_gateway h (subnet @ ''.1'')" "\<not> can_reach_gateway h (subnet @ ''.254'')"
      by (simp_all add: rejected_def)
    moreover from this(1) have "\<not> sublist subnet (ip_route_show h)"
      by (simp add: subnet_used_locally_def contains_iff_sublist)
    ultimately show ?thesis using found by blast
  next
    case exhausted
    then show ?thesis by (simp add: subnet_exhausted_def)
  qed
qed

lemma candidate_host_quiet: "candidate host_quiet 0 = ''10.42.17''"
  by (simp add: candidate_def host_quiet_def string_of_nat.simps digit_char_def digits_def)

lemma host_quiet_accepts: "\<not> rejected host_quiet ''10.42.17''"
  by (simp add: rejected_def subnet_used_locally_def can_reach_gateway_def host_quiet_def)

lemma generate_host_quiet: "generate_random_subnet host_quiet = (Inr ''10.42.17'', 1)"
  using host_quiet_accepts
  by (simp add: generate_random_subnet_def generate_from_step candidate_host_quiet)

lemma generate_host_crowded: "generate_random_subnet host_crowded = (Inl subnet_exhausted, 100)"
  unfolding generate_random_subnet_def
  by (rule generate_from_all_rejected)
     (simp_all add: rejected_def can_reach_gateway_def host_crowded_def)

theorem generate_random_subnet_spec_witness:
  "generate_random_subnet host_quiet = (Inr ''10.42.17'', 1)
   \<and> \<not> sublist ''10.42.17'' (ip_route_show host_quiet)
   \<and> \<not> can_reach_gateway host_quiet ''10.42.17.1''
   \<and> \<not> can_reach_gateway host_quiet ''10.42.17.254''
   \<and> generate_random_subnet host_crowded
       = (Inl (RuntimeError ''Could not determine a subnet for networking.''), 100)
   \<and> rejected host_crowded (candidate host_crowded 0)
   \<and> rejected host_crowded (candidate host_crowded 99)"
proof -
  from generate_random_subnet_spec [OF generate_host_quiet]
  have "\<not> sublist ''10.42.17'' (ip_route_show host_quiet)
        \<and> \<not> can_reach_gateway host_quiet ''10.42.17.1''
        \<and> \<not> can_reach_gateway host_quiet ''10.42.17.254''"
    by auto
  moreover from generate_random_subnet_spec [OF generate_host_crowded]
  have "rejected host_crowded (candidate host_crowded 0)
        \<and> rejected host_crowded (candidate host_crowded 99)"
    by (simp add: subnet_exhausted_def)
  ultimately show ?thesis
    using generate_host_quiet generate_host_crowded by (simp add: subnet_exhausted_def)
qed


section \<open>The subnet of a bridge\<close>
























section \<open>Bridge creation\<close>

lemma sublist_prefix_part: "sublist a (a @ b)"
  using sublist_appendI [of a "[]" b] by simp

text \<open>
  C2.  When the system bus is not connected, \<open>create_bridge_with\<close> fails with a
  \<open>CreateBridgeException\<close> whose text is \<open>Could not create bridge. Failed to connect
  to D-Bus system bus: \<close> followed by the message of the bus's last error, or by
  \<open>unknown cause\<close> when that error is not a valid one.  The bus was asked whether it
  is connected and for its last error, and nothing else: no interface was resolved
  and no method called.  Nothing was logged.
\<close>

theorem create_bridge_with_bus_disconnected:
  assumes "\<not> is_connected system_bus"
    and "cause = (if isValid (last_error system_bus) then message (last_error system_bus)
                  else ''unknown cause'')"
  shows "\<exists>msg. create_bridge_with system_bus interface
                 = (Inl (CreateBridgeException msg), [IsConnected, LastError], [])
              \<and> msg = ''Could not create bridge. Failed to connect to D-Bus system bus: '' @ cause
              \<and> sublist ''Could not create bridge'' msg
              \<and> sublist ''Failed to connect'' msg
              \<and> sublist cause msg"
proof -
  let ?msg = "''Could not create bridge. Failed to connect to D-Bus system bus: '' @ cause"
  have run: "create_bridge_with system_bus interface
      = (Inl (CreateBridgeException ?msg), [IsConnected, LastError], [])"
    using assms
    by (simp add: create_bridge_with_def get_checked_system_bus_def CreateBridgeException_ctor_def)
  have "?msg = ''Could not create bridge'' @ ''. Failed to connect to D-Bus system bus: '' @ cause"
    by simp
  then have a: "sublist ''Could not create bridge'' ?msg"
    by (simp only: sublist_prefix_part)
  have "?msg = ''Could not create bridge. '' @ ''Failed to connect''
                 @ '' to D-Bus system bus: '' @ cause"
    by simp
  then have b: "sublist ''Failed to connect'' ?msg"
    by (simp only: sublist_appendI)
  have "?msg = ''Could not create bridge. Failed to connect to D-Bus system bus: '' @ cause @ []"
    by simp
  then have c: "sublist cause ?msg"
    by (simp only: sublist_appendI)
  from run a b c show ?thesis by blast
qed

theorem create_bridge_with_bus_disconnected_witness:
  "\<not> is_connected disconnected_bus
   \<and> create_bridge_with disconnected_bus ''asdf''
       = (Inl (CreateBridgeException
                 ''Could not create bridge. Failed to connect to D-Bus system bus: DBus error msg''),
          [IsConnected, LastError], [])
   \<and> sublist ''DBus error msg''
        ''Could not create bridge. Failed to connect to D-Bus system bus: DBus error msg''"
proof -
  have h: "\<not> is_connected disconnected_bus"
    by (simp add: disconnected_bus_def)
  have c: "''DBus error msg''
      = (if isValid (last_error disconnected_bus) then message (last_error disconnected_bus)
         else ''unknown cause'')"
    by (simp add: disconnected_bus_def)
  from create_bridge_with_bus_disconnected [OF h c, of "''asdf''"] h show ?thesis
    by auto
qed

lemma rollback_child_parent:
  "rollback system_bus [Some child, Some parent]
   = (case call system_bus (nm_bus_name, child, nm_connection_ifc) ''Delete'' [] of
        ErrorReply e \<Rightarrow>
          (Inl (CreateBridgeException_ctor
                  (error_template (nm_bus_name, child, nm_connection_ifc) ''Delete'') e True),
           [GetInterface (nm_bus_name, child, nm_connection_ifc),
            Call (nm_bus_name, child, nm_connection_ifc) ''Delete'' []])
      | ValueReply _ \<Rightarrow>
          (case call system_bus (nm_bus_name, parent, nm_connection_ifc) ''Delete'' [] of
             ErrorReply e \<Rightarrow>
               (Inl (CreateBridgeException_ctor
                       (error_template (nm_bus_name, parent, nm_connection_ifc) ''Delete'') e True),
                [GetInterface (nm_bus_name, child, nm_connection_ifc),
                 Call (nm_bus_name, child, nm_connection_ifc) ''Delete'' [],
                 GetInterface (nm_bus_name, parent, nm_connection_ifc),
                 Call (nm_bus_name, parent, nm_connection_ifc) ''Delete'' []])
           | ValueReply _ \<Rightarrow>
               (Inr (),
                [GetInterface (nm_bus_name, child, nm_connection_ifc),
                 Call (nm_bus_name, child, nm_connection_ifc) ''Delete'' [],
                 GetInterface (nm_bus_name, parent, nm_connection_ifc),
                 Call (nm_bus_name, parent, nm_connection_ifc) ''Delete'' []])))"
  by (simp add: checked_dbus_call_def Let_def split: reply.splits)

text \<open>
  What a run does in which the bus is connected, both interfaces are valid, the two
  \<open>AddConnection\<close> calls succeed with the non-null paths \<open>parent\<close> and \<open>child\<close>, and
  \<open>ActivateConnection\<close> fails with \<open>err\<close>.  The error that reaches the caller is the
  \<open>CreateBridgeException\<close> of the failed activation, a create failure built from
  \<open>err\<close>, whatever happens during the rollback.  The rollback starts with the
  \<open>Delete\<close> of the child connection, which is why the \<open>Delete\<close> of the parent depends
  on the reply to it.  A failing \<open>Delete\<close> is logged, not raised.
\<close>

lemma create_bridge_with_activation_fails:
  assumes names: "parent_name = take max_bridge_name_len (base_name @ c_str interface)"
      "settings = make_connection_settings parent_name (parent_name @ ''-child'') interface"
      "nm_root = (nm_bus_name, nm_root_obj, nm_root_ifc)"
      "nm_settings = (nm_bus_name, nm_settings_obj, nm_settings_ifc)"
      "child_connection = (nm_bus_name, child, nm_connection_ifc)"
      "parent_connection = (nm_bus_name, parent, nm_connection_ifc)"
      "activate = Call nm_root ''ActivateConnection''
                    [ObjectPath (Some child), ObjectPath root_path, ObjectPath root_path]"
    and up: "is_connected system_bus" "is_valid system_bus nm_root"
      "is_valid system_bus nm_settings"
    and added: "call system_bus nm_settings ''AddConnection'' [Settings (fst settings)]
                  = ValueReply (Some parent)"
      "call system_bus nm_settings ''AddConnection'' [Settings (snd settings)]
                  = ValueReply (Some child)"
    and failed: "call system_bus nm_root ''ActivateConnection''
                   [ObjectPath (Some child), ObjectPath root_path, ObjectPath root_path]
                  = ErrorReply err"
  shows "\<exists>msg rest logs.
           create_bridge_with system_bus interface
             = (Inl (CreateBridgeException msg),
                [IsConnected, GetInterface nm_root, IsValid nm_root,
                 GetInterface nm_settings, IsValid nm_settings,
                 Call nm_settings ''AddConnection'' [Settings (fst settings)],
                 Call nm_settings ''AddConnection'' [Settings (snd settings)],
                 activate,
                 GetInterface child_connection, Call child_connection ''Delete'' []] @ rest,
                [(Level_debug, ''create bridge'', ''Creating bridge: '' @ parent_name),
                 (Level_info, ''rollback bridge'', ''Rolling back bridge'')] @ logs)
         \<and> CreateBridgeException msg
             = CreateBridgeException_ctor (error_template nm_root ''ActivateConnection'') err False
         \<and> sublist ''Could not create bridge'' msg
         \<and> rest = (case call system_bus child_connection ''Delete'' [] of
                     ValueReply _ \<Rightarrow>
                       [GetInterface parent_connection, Call parent_connection ''Delete'' []]
                   | ErrorReply _ \<Rightarrow> [])
         \<and> logs = (case call system_bus child_connection ''Delete'' [] of
                     ErrorReply e \<Rightarrow>
                       [(Level_error, ''rollback bridge'',
                         what (CreateBridgeException_ctor
                                 (error_template child_connection ''Delete'') e True))]
                   | ValueReply _ \<Rightarrow>
                       (case call system_bus parent_connection ''Delete'' [] of
                          ErrorReply e \<Rightarrow>
                            [(Level_error, ''rollback bridge'',
                              what (CreateBridgeException_ctor
                                      (error_template parent_connection ''Delete'') e True))]
                        | ValueReply _ \<Rightarrow> []))"
proof -
  let ?msg = "''Could not create bridge'' @ ''. ''
                @ error_template nm_root ''ActivateConnection'' @ '': ''
                @ (if isValid err then message err else ''unknown cause'')"
  let ?del_child = "call system_bus child_connection ''Delete'' []"
  let ?del_parent = "call system_bus parent_connection ''Delete'' []"
  let ?rest = "case ?del_child of
                 ValueReply _ \<Rightarrow>
                   [GetInterface parent_connection, Call parent_connection ''Delete'' []]
               | ErrorReply _ \<Rightarrow> []"
  let ?logs = "case ?del_child of
                 ErrorReply e \<Rightarrow>
                   [(Level_error, ''rollback bridge'',
                     what (CreateBridgeException_ctor
                             (error_template child_connection ''Delete'') e True))]
               | ValueReply _ \<Rightarrow>
                   (case ?del_parent of
                      ErrorReply e \<Rightarrow>
                        [(Level_error, ''rollback bridge'',
                          what (CreateBridgeException_ctor
                                  (error_template parent_connection ''Delete'') e True))]
                    | ValueReply _ \<Rightarrow> [])"
  have ctor: "CreateBridgeException_ctor (error_template nm_root ''ActivateConnection'') err False
                = CreateBridgeException ?msg"
    by (simp add: CreateBridgeException_ctor_def)
  have sub: "sublist ''Could not create bridge'' ?msg"
    by (rule sublist_prefix_part)
  have g0: "get_checked_system_bus system_bus = (Inr (), [IsConnected])"
    using up(1) by (simp add: get_checked_system_bus_def)
  have g1: "get_checked_interface system_bus nm_bus_name nm_root_obj nm_root_ifc
              = (Inr nm_root, [GetInterface nm_root, IsValid nm_root])"
    using up(2) names(3) by (simp add: get_checked_interface_def Let_def)
  have g2: "get_checked_interface system_bus nm_bus_name nm_settings_obj nm_settings_ifc
              = (Inr nm_settings, [GetInterface nm_settings, IsValid nm_settings])"
    using up(3) names(4) by (simp add: get_checked_interface_def Let_def)
  have c3: "checked_dbus_call system_bus False nm_settings ''AddConnection''
              [Settings (fst settings)]
            = (Inr (Some parent), [Call nm_settings ''AddConnection'' [Settings (fst settings)]])"
    using added(1) by (simp add: checked_dbus_call_def)
  have c4: "checked_dbus_call system_bus False nm_settings ''AddConnection''
              [Settings (snd settings)]
            = (Inr (Some child), [Call nm_settings ''AddConnection'' [Settings (snd settings)]])"
    using added(2) by (simp add: checked_dbus_call_def)
  have c5: "checked_dbus_call system_bus False nm_root ''ActivateConnection''
              [ObjectPath (Some child), ObjectPath root_path, ObjectPath root_path]
            = (Inl (CreateBridgeException ?msg), [activate])"
    using failed names(7) by (simp add: checked_dbus_call_def ctor)
  have rb: "make_bridge_rollback_guard log_category_rollback system_bus (Some parent) (Some child)
            = ([GetInterface child_connection, Call child_connection ''Delete'' []] @ ?rest,
               (Level_info, ''rollback bridge'', ''Rolling back bridge'') # ?logs)"
    unfolding make_bridge_rollback_guard_def rollback_child_parent names(5,6)
    by (simp add: top_catch_all_def log_category_rollback_def split: reply.splits)
  have s: "make_connection_settings parent_name (parent_name @ ''-child'') interface
           = (fst settings, snd settings)"
    using names(2) by simp
  have run: "create_bridge_with system_bus interface
      = (Inl (CreateBridgeException ?msg),
         [IsConnected, GetInterface nm_root, IsValid nm_root,
          GetInterface nm_settings, IsValid nm_settings,
          Call nm_settings ''AddConnection'' [Settings (fst settings)],
          Call nm_settings ''AddConnection'' [Settings (snd settings)],
          activate,
          GetInterface child_connection, Call child_connection ''Delete'' []] @ ?rest,
         [(Level_debug, ''create bridge'', ''Creating bridge: '' @ parent_name),
          (Level_info, ''rollback bridge'', ''Rolling back bridge'')] @ ?logs)"
    unfolding create_bridge_with_def g0 g1 g2 names(1) [symmetric] Let_def s
    by (simp add: c3 c4 c5 rb log_category_create_def case_prod_unfold)
  from run ctor sub show ?thesis
    by (intro exI [of _ ?msg] exI [of _ ?rest] exI [of _ ?logs]) simp
qed

lemma sample_names:
  "take max_bridge_name_len (base_name @ c_str ''eth0'') = ''br-eth0''"
  by (simp add: max_bridge_name_len_def base_name_def c_str_def)

lemma sample_bus_up:
  "is_connected (sample_bus d)"
  "is_valid (sample_bus d) ifc"
  by (simp_all add: sample_bus_def)

lemma sample_bus_calls:
  "call (sample_bus d) ifc ''AddConnection''
     [Settings (fst (make_connection_settings ''br-eth0'' (''br-eth0'' @ ''-child'') ''eth0''))]
   = ValueReply (Some ''/parent'')"
  "call (sample_bus d) ifc ''AddConnection''
     [Settings (snd (make_connection_settings ''br-eth0'' (''br-eth0'' @ ''-child'') ''eth0''))]
   = ValueReply (Some ''/child'')"
  "call (sample_bus d) ifc ''ActivateConnection'' params
   = ErrorReply \<lparr>isValid = True, message = ''refused''\<rparr>"
  "call (sample_bus True) ifc ''Delete'' [] = ValueReply None"
  "call (sample_bus False) ifc ''Delete'' [] = ErrorReply \<lparr>isValid = True, message = ''refused''\<rparr>"
  by (simp_all add: sample_bus_def sample_call_def make_connection_settings_def)

lemma create_bridge_with_sample_runs:
  "is_connected (sample_bus True) \<and> is_connected (sample_bus False)
   \<and> fst (create_bridge_with (sample_bus True) ''eth0'')
       = Inl (CreateBridgeException_ctor
                (error_template (nm_bus_name, nm_root_obj, nm_root_ifc) ''ActivateConnection'')
                \<lparr>isValid = True, message = ''refused''\<rparr> False)
   \<and> drop 8 (fst (snd (create_bridge_with (sample_bus True) ''eth0'')))
       = [GetInterface (nm_bus_name, ''/child'', nm_connection_ifc),
          Call (nm_bus_name, ''/child'', nm_connection_ifc) ''Delete'' [],
          GetInterface (nm_bus_name, ''/parent'', nm_connection_ifc),
          Call (nm_bus_name, ''/parent'', nm_connection_ifc) ''Delete'' []]
   \<and> drop 2 (snd (snd (create_bridge_with (sample_bus True) ''eth0''))) = []
   \<and> fst (create_bridge_with (sample_bus False) ''eth0'')
       = Inl (CreateBridgeException_ctor
                (error_template (nm_bus_name, nm_root_obj, nm_root_ifc) ''ActivateConnection'')
                \<lparr>isValid = True, message = ''refused''\<rparr> False)
   \<and> drop 8 (fst (snd (create_bridge_with (sample_bus False) ''eth0'')))
       = [GetInterface (nm_bus_name, ''/child'', nm_connection_ifc),
          Call (nm_bus_name, ''/child'', nm_connection_ifc) ''Delete'' []]
   \<and> drop 2 (snd (snd (create_bridge_with (sample_bus False) ''eth0'')))
       = [(Level_error, ''rollback bridge'',
           what (CreateBridgeException_ctor
                   (error_template (nm_bus_name, ''/child'', nm_connection_ifc) ''Delete'')
                   \<lparr>isValid = True, message = ''refused''\<rparr> True))]"
proof -
  have run: "\<exists>msg rest logs.
           create_bridge_with (sample_bus d) ''eth0''
             = (Inl (CreateBridgeException msg),
                [IsConnected, GetInterface (nm_bus_name, nm_root_obj, nm_root_ifc),
                 IsValid (nm_bus_name, nm_root_obj, nm_root_ifc),
                 GetInterface (nm_bus_name, nm_settings_obj, nm_settings_ifc),
                 IsValid (nm_bus_name, nm_settings_obj, nm_settings_ifc),
                 Call (nm_bus_name, nm_settings_obj, nm_settings_ifc) ''AddConnection''
                   [Settings (fst (make_connection_settings ''br-eth0''
                                     (''br-eth0'' @ ''-child'') ''eth0''))],
                 Call (nm_bus_name, nm_settings_obj, nm_settings_ifc) ''AddConnection''
                   [Settings (snd (make_connection_settings ''br-eth0''
                                     (''br-eth0'' @ ''-child'') ''eth0''))],
                 Call (nm_bus_name, nm_root_obj, nm_root_ifc) ''ActivateConnection''
                   [ObjectPath (Some ''/child''), ObjectPath root_path, ObjectPath root_path],
                 GetInterface (nm_bus_name, ''/child'', nm_connection_ifc),
                 Call (nm_bus_name, ''/child'', nm_connection_ifc) ''Delete'' []] @ rest,
                [(Level_debug, ''create bridge'', ''Creating bridge: '' @ ''br-eth0''),
                 (Level_info, ''rollback bridge'', ''Rolling back bridge'')] @ logs)
         \<and> CreateBridgeException msg
             = CreateBridgeException_ctor
                 (error_template (nm_bus_name, nm_root_obj, nm_root_ifc) ''ActivateConnection'')
                 \<lparr>isValid = True, message = ''refused''\<rparr> False
         \<and> sublist ''Could not create bridge'' msg
         \<and> rest = (case call (sample_bus d) (nm_bus_name, ''/child'', nm_connection_ifc)
                           ''Delete'' [] of
                     ValueReply _ \<Rightarrow>
                       [GetInterface (nm_bus_name, ''/parent'', nm_connection_ifc),
                        Call (nm_bus_name, ''/parent'', nm_connection_ifc) ''Delete'' []]
                   | ErrorReply _ \<Rightarrow> [])
         \<and> logs = (case call (sample_bus d) (nm_bus_name, ''/child'', nm_connection_ifc)
                           ''Delete'' [] of
                     ErrorReply e \<Rightarrow>
                       [(Level_error, ''rollback bridge'',
                         what (CreateBridgeException_ctor
                                 (error_template (nm_bus_name, ''/child'', nm_connection_ifc)
                                    ''Delete'') e True))]
                   | ValueReply _ \<Rightarrow>
                       (case call (sample_bus d) (nm_bus_name, ''/parent'', nm_connection_ifc)
                               ''Delete'' [] of
                          ErrorReply e \<Rightarrow>
                            [(Level_error, ''rollback bridge'',
                              what (CreateBridgeException_ctor
                                      (error_template (nm_bus_name, ''/parent'', nm_connection_ifc)
                                         ''Delete'') e True))]
                        | ValueReply _ \<Rightarrow> []))" for d
    by (rule create_bridge_with_activation_fails
          [OF sample_names [symmetric] refl refl refl refl refl refl
              sample_bus_up(1) sample_bus_up(2) sample_bus_up(2)
              sample_bus_calls(1) sample_bus_calls(2) sample_bus_calls(3)])
  from run [of True] run [of False] sample_bus_up(1) show ?thesis
    by (auto simp: sample_bus_calls)
qed

text \<open>
  C1.  The claim fails on the code at this input: the bus is connected, both
  \<open>AddConnection\<close> calls succeed with the non-null paths \<open>/parent\<close> and \<open>/child\<close>,
  \<open>ActivateConnection\<close> fails, and the \<open>Delete\<close> of the child connection fails too.
  The error that reaches the caller is that of the activation, and the failure of the
  rollback is only logged, as claimed.  But the rollback ends with the \<open>Delete\<close> of
  the child: the parent connection, which was created, never receives a \<open>Delete\<close>.
  On the same bus with a \<open>Delete\<close> that succeeds, the child and then the parent
  receive one.
\<close>

theorem create_bridge_with_rollback_skips_parent:
  "is_connected (sample_bus False)
   \<and> call (sample_bus False) (nm_bus_name, nm_settings_obj, nm_settings_ifc) ''AddConnection''
        [Settings (fst (make_connection_settings ''br-eth0'' ''br-eth0-child'' ''eth0''))]
       = ValueReply (Some ''/parent'')
   \<and> call (sample_bus False) (nm_bus_name, nm_settings_obj, nm_settings_ifc) ''AddConnection''
        [Settings (snd (make_connection_settings ''br-eth0'' ''br-eth0-child'' ''eth0''))]
       = ValueReply (Some ''/child'')
   \<and> call (sample_bus False) (nm_bus_name, nm_root_obj, nm_root_ifc) ''ActivateConnection''
        [ObjectPath (Some ''/child''), ObjectPath root_path, ObjectPath root_path]
       = ErrorReply \<lparr>isValid = True, message = ''refused''\<rparr>
   \<and> call (sample_bus False) (nm_bus_name, ''/child'', nm_connection_ifc) ''Delete'' []
       = ErrorReply \<lparr>isValid = True, message = ''refused''\<rparr>
   \<and> fst (create_bridge_with (sample_bus False) ''eth0'')
       = Inl (CreateBridgeException_ctor
                (error_template (nm_bus_name, nm_root_obj, nm_root_ifc) ''ActivateConnection'')
                \<lparr>isValid = True, message = ''refused''\<rparr> False)
   \<and> fst (snd (create_bridge_with (sample_bus False) ''eth0''))
       = [IsConnected, GetInterface (nm_bus_name, nm_root_obj, nm_root_ifc),
          IsValid (nm_bus_name, nm_root_obj, nm_root_ifc),
          GetInterface (nm_bus_name, nm_settings_obj, nm_settings_ifc),
          IsValid (nm_bus_name, nm_settings_obj, nm_settings_ifc),
          Call (nm_bus_name, nm_settings_obj, nm_settings_ifc) ''AddConnection''
            [Settings (fst (make_connection_settings ''br-eth0'' ''br-eth0-child'' ''eth0''))],
          Call (nm_bus_name, nm_settings_obj, nm_settings_ifc) ''AddConnection''
            [Settings (snd (make_connection_settings ''br-eth0'' ''br-eth0-child'' ''eth0''))],
          Call (nm_bus_name, nm_root_obj, nm_root_ifc) ''ActivateConnection''
            [ObjectPath (Some ''/child''), ObjectPath root_path, ObjectPath root_path],
          GetInterface (nm_bus_name, ''/child'', nm_connection_ifc),
          Call (nm_bus_name, ''/child'', nm_connection_ifc) ''Delete'' []]
   \<and> Call (nm_bus_name, ''/parent'', nm_connection_ifc) ''Delete'' []
       \<notin> set (fst (snd (create_bridge_with (sample_bus False) ''eth0'')))
   \<and> drop 2 (snd (snd (create_bridge_with (sample_bus False) ''eth0'')))
       = [(Level_error, ''rollback bridge'',
           what (CreateBridgeException_ctor
                   (error_template (nm_bus_name, ''/child'', nm_connection_ifc) ''Delete'')
                   \<lparr>isValid = True, message = ''refused''\<rparr> True))]
   \<and> drop 8 (fst (snd (create_bridge_with (sample_bus True) ''eth0'')))
       = [GetInterface (nm_bus_name, ''/child'', nm_connection_ifc),
          Call (nm_bus_name, ''/child'', nm_connection_ifc) ''Delete'' [],
          GetInterface (nm_bus_name, ''/parent'', nm_connection_ifc),
          Call (nm_bus_name, ''/parent'', nm_connection_ifc) ''Delete'' []]"
proof -
  have ev: "fst (snd (create_bridge_with (sample_bus False) ''eth0''))
      = [IsConnected, GetInterface (nm_bus_name, nm_root_obj, nm_root_ifc),
         IsValid (nm_bus_name, nm_root_obj, nm_root_ifc),
         GetInterface (nm_bus_name, nm_settings_obj, nm_settings_ifc),
         IsValid (nm_bus_name, nm_settings_obj, nm_settings_ifc),
         Call (nm_bus_name, nm_settings_obj, nm_settings_ifc) ''AddConnection''
           [Settings (fst (make_connection_settings ''br-eth0'' ''br-eth0-child'' ''eth0''))],
         Call (nm_bus_name, nm_settings_obj, nm_settings_ifc) ''AddConnection''
           [Settings (snd (make_connection_settings ''br-eth0'' ''br-eth0-child'' ''eth0''))],
         Call (nm_bus_name, nm_root_obj, nm_root_ifc) ''ActivateConnection''
           [ObjectPath (Some ''/child''), ObjectPath root_path, ObjectPath root_path],
         GetInterface (nm_bus_name, ''/child'', nm_connection_ifc),
         Call (nm_bus_name, ''/child'', nm_connection_ifc) ''Delete'' []]"
    unfolding create_bridge_with_def sample_names Let_def
    using sample_bus_calls
    by (simp add: get_checked_system_bus_def get_checked_interface_def checked_dbus_call_def
        make_bridge_rollback_guard_def top_catch_all_def sample_bus_up Let_def
        case_prod_unfold)
  have ne: "(''/parent'' :: string) \<noteq> ''/child''" by simp
  have absent: "Call (nm_bus_name, ''/parent'', nm_connection_ifc) ''Delete'' []
       \<notin> set (fst (snd (create_bridge_with (sample_bus False) ''eth0'')))"
    unfolding ev using ne by simp
  note runs = create_bridge_with_sample_runs
  note err = runs [THEN conjunct2, THEN conjunct2, THEN conjunct2, THEN conjunct2,
      THEN conjunct2, THEN conjunct1]
  note logs = runs [THEN conjunct2, THEN conjunct2, THEN conjunct2, THEN conjunct2,
      THEN conjunct2, THEN conjunct2, THEN conjunct2]
  note both = runs [THEN conjunct2, THEN conjunct2, THEN conjunct2, THEN conjunct1]
  have calls: "call (sample_bus False) (nm_bus_name, nm_settings_obj, nm_settings_ifc)
        ''AddConnection''
        [Settings (fst (make_connection_settings ''br-eth0'' ''br-eth0-child'' ''eth0''))]
       = ValueReply (Some ''/parent'')"
    "call (sample_bus False) (nm_bus_name, nm_settings_obj, nm_settings_ifc) ''AddConnection''
        [Settings (snd (make_connection_settings ''br-eth0'' ''br-eth0-child'' ''eth0''))]
       = ValueReply (Some ''/child'')"
    using sample_bus_calls(1,2) by simp_all
  from sample_bus_up(1) [of False] calls sample_bus_calls(3) sample_bus_calls(5)
    err ev absent logs both
  show ?thesis by (intro conjI)
qed


end
